theory Spec2Isabelle
  imports Main
begin

section \<open>Errors\<close>

text \<open>
  Go reports failure through \<open>error\<close> values returned next to the result. The model keeps
  one constructor per origin of an error that the service can meet; \<open>Error\<close> is the
  method \<open>err.Error()\<close>, whose text the dispatcher copies into the body of a 500 response.
\<close>

datatype error =
    ErrSyntax
  | ErrRange
  | EscapeError
  | SemicolonError
  | ErrNoRows
  | StoreFault string
  | NetError string
  | TemplateError string
  | MarshalError string
  | UnsupportedType string

fun Error :: "error \<Rightarrow> string" where
  "Error ErrSyntax = ''invalid syntax''"
| "Error ErrRange = ''value out of range''"
| "Error EscapeError = ''invalid URL escape''"
| "Error SemicolonError = ''invalid semicolon separator in query''"
| "Error ErrNoRows = ''sql: no rows in result set''"
| "Error (StoreFault m) = m"
| "Error (NetError m) = m"
| "Error (TemplateError m) = m"
| "Error (MarshalError m) = m"
| "Error (UnsupportedType t) = ''unsupported data type for HTML fragment generation: '' @ t"

section \<open>Go standard library functions the service calls\<close>

subsection \<open>Package strings\<close>

definition HasPrefix :: "string \<Rightarrow> string \<Rightarrow> bool" where
  "HasPrefix s p = (take (length p) s = p)"

text \<open>
  \<open>strings.TrimSpace\<close> removes from both ends of a string every code point for which
  \<open>unicode.IsSpace\<close> holds: tab, line feed, vertical tab, form feed, carriage return,
  space, U+0085, U+00A0, U+1680, U+2000 to U+200A, U+2028, U+2029, U+202F, U+205F and
  U+3000. A Go string is a sequence of bytes, and so is a string here: \<open>spaceRunes\<close> lists
  the UTF-8 encodings of these code points. Bytes that are not valid UTF-8 decode to
  U+FFFD, which is not white space, and the decoder accepts no other encoding of a code
  point, so white space at an end of a string is exactly one of these byte sequences there.
\<close>

definition spaceRunes :: "string list" where
  "spaceRunes =
     [[CHR 0x09], [CHR 0x0A], [CHR 0x0B], [CHR 0x0C], [CHR 0x0D], [CHR 0x20],
      [CHR 0xC2, CHR 0x85], [CHR 0xC2, CHR 0xA0],
      [CHR 0xE1, CHR 0x9A, CHR 0x80],
      [CHR 0xE2, CHR 0x80, CHR 0x80], [CHR 0xE2, CHR 0x80, CHR 0x81],
      [CHR 0xE2, CHR 0x80, CHR 0x82], [CHR 0xE2, CHR 0x80, CHR 0x83],
      [CHR 0xE2, CHR 0x80, CHR 0x84], [CHR 0xE2, CHR 0x80, CHR 0x85],
      [CHR 0xE2, CHR 0x80, CHR 0x86], [CHR 0xE2, CHR 0x80, CHR 0x87],
      [CHR 0xE2, CHR 0x80, CHR 0x88], [CHR 0xE2, CHR 0x80, CHR 0x89],
      [CHR 0xE2, CHR 0x80, CHR 0x8A],
      [CHR 0xE2, CHR 0x80, CHR 0xA8], [CHR 0xE2, CHR 0x80, CHR 0xA9],
      [CHR 0xE2, CHR 0x80, CHR 0xAF],
      [CHR 0xE2, CHR 0x81, CHR 0x9F],
      [CHR 0xE3, CHR 0x80, CHR 0x80]]"

text \<open>The number of bytes of the white-space code point at the start of a string, or 0.\<close>

definition leadingSpace :: "string \<Rightarrow> nat" where
  "leadingSpace s =
     (case find (\<lambda>t. HasPrefix s t) spaceRunes of None \<Rightarrow> 0 | Some t \<Rightarrow> length t)"

text \<open>The number of bytes of the white-space code point at the end of a string, or 0.\<close>

definition trailingSpace :: "string \<Rightarrow> nat" where
  "trailingSpace s =
     (case find (\<lambda>t. HasPrefix (rev s) (rev t)) spaceRunes of None \<Rightarrow> 0 | Some t \<Rightarrow> length t)"

lemma HasPrefix_length: "HasPrefix s t \<Longrightarrow> length t \<le> length s"
proof -
  assume "HasPrefix s t"
  then have "length (take (length t) s) = length t"
    by (simp add: HasPrefix_def)
  then show ?thesis
    by simp
qed

lemma leadingSpace_le: "leadingSpace s \<le> length s"
  by (auto simp: leadingSpace_def find_Some_iff dest: HasPrefix_length split: option.splits)

lemma trailingSpace_le: "trailingSpace s \<le> length s"
  by (auto simp: trailingSpace_def find_Some_iff dest: HasPrefix_length split: option.splits)

text \<open>\<open>strings.TrimLeftFunc s unicode.IsSpace\<close>: the string from its first code point that is not white space.\<close>

function TrimLeft :: "string \<Rightarrow> string" where
  "TrimLeft s = (if leadingSpace s = 0 then s else TrimLeft (drop (leadingSpace s) s))"
  by pat_completeness auto
termination
proof (relation "measure length")
  show "wf (measure length)"
    by simp
next
  fix s :: string
  assume "leadingSpace s \<noteq> 0"
  with leadingSpace_le [of s] show "(drop (leadingSpace s) s, s) \<in> measure length"
    by simp
qed

text \<open>\<open>strings.TrimRightFunc s unicode.IsSpace\<close>: the string up to its last code point that is not white space.\<close>

function TrimRight :: "string \<Rightarrow> string" where
  "TrimRight s = (if trailingSpace s = 0 then s else TrimRight (take (length s - trailingSpace s) s))"
  by pat_completeness auto
termination
proof (relation "measure length")
  show "wf (measure length)"
    by simp
next
  fix s :: string
  assume "trailingSpace s \<noteq> 0"
  with trailingSpace_le [of s] show "(take (length s - trailingSpace s) s, s) \<in> measure length"
    by simp
qed

declare TrimLeft.simps [simp del] TrimRight.simps [simp del]

definition TrimSpace :: "string \<Rightarrow> string" where
  "TrimSpace s = TrimRight (TrimLeft s)"

text \<open>\<open>strings.Cut s sep\<close> for a one-byte separator: the text before and after its first occurrence.\<close>

definition Cut :: "string \<Rightarrow> char \<Rightarrow> string \<times> string" where
  "Cut s sep = (takeWhile (\<lambda>c. c \<noteq> sep) s, drop 1 (dropWhile (\<lambda>c. c \<noteq> sep) s))"

subsection \<open>Package strconv\<close>

text \<open>
  \<open>strconv.ParseUint s 10 0\<close> on a 64-bit platform, after its test for the empty
  string: the loop over the bytes of \<open>s\<close>, with the value \<open>n\<close> read so far as a
  \<open>uint64\<close>. A byte that is no decimal digit is a syntax error with the value 0; a
  product or sum that leaves \<open>uint64\<close> is a range error with the value \<open>maxVal\<close>, returned
  at once, whatever bytes follow.
\<close>

fun ParseUint_loop :: "string \<Rightarrow> nat \<Rightarrow> nat \<times> error option" where
  "ParseUint_loop [] n = (n, None)"
| "ParseUint_loop (c # cs) n =
     (if \<not> (48 \<le> (of_char c :: nat) \<and> (of_char c :: nat) \<le> 57) then (0, Some ErrSyntax)
      else if n \<ge> (2 ^ 64 - 1) div 10 + 1 then (2 ^ 64 - 1, Some ErrRange)
      else
        (let n' = (n * 10) mod 2 ^ 64;
             n1 = (n' + ((of_char c :: nat) - 48)) mod 2 ^ 64
         in if n1 < n' \<or> n1 > 2 ^ 64 - 1 then (2 ^ 64 - 1, Some ErrRange)
            else ParseUint_loop cs n1))"

definition ParseUint :: "string \<Rightarrow> nat \<times> error option" where
  "ParseUint s = (if s = [] then (0, Some ErrSyntax) else ParseUint_loop s 0)"

text \<open>
  \<open>strconv.ParseInt s 10 0\<close>: the sign is picked off, the rest is parsed unsigned, an
  error other than a range error is returned with the value 0, and a value outside
  \<open>int64\<close> is a range error with the nearest bound.
\<close>

definition ParseInt :: "string \<Rightarrow> int \<times> error option" where
  "ParseInt s0 =
     (case s0 of
        [] \<Rightarrow> (0, Some ErrSyntax)
      | c # cs \<Rightarrow>
          (let neg = (c = CHR ''-'');
               s = (if c = CHR ''+'' \<or> c = CHR ''-'' then cs else s0);
               (un, err) = ParseUint s
           in if err \<noteq> None \<and> err \<noteq> Some ErrRange then (0, err)
              else if \<not> neg \<and> un \<ge> 2 ^ 63 then (2 ^ 63 - 1, Some ErrRange)
              else if neg \<and> un > 2 ^ 63 then (- (2 ^ 63), Some ErrRange)
              else (if neg then - int un else int un, None)))"

text \<open>
  The loop of the fast path of \<open>strconv.Atoi\<close>: \<open>ch -= '0'\<close> on a byte, a syntax error
  with the value 0 when the result is above 9.
\<close>

fun Atoi_loop :: "string \<Rightarrow> int \<Rightarrow> int \<times> error option" where
  "Atoi_loop [] n = (n, None)"
| "Atoi_loop (ch # cs) n =
     (if ((of_char ch :: nat) + 256 - 48) mod 256 > 9 then (0, Some ErrSyntax)
      else Atoi_loop cs (n * 10 + int (((of_char ch :: nat) + 256 - 48) mod 256)))"

text \<open>
  \<open>strconv.Atoi\<close> on a 64-bit platform: the fast path for a string of 1 to 18 bytes,
  \<open>ParseInt\<close> for every other. It returns a value and an error: with a syntax error the
  value is 0, with a range error it is the nearest bound of \<open>int\<close>.
\<close>

definition Atoi :: "string \<Rightarrow> int \<times> error option" where
  "Atoi s0 =
     (case s0 of
        [] \<Rightarrow> ParseInt s0
      | c # cs \<Rightarrow>
          if length s0 < 19 then
            (let s = (if c = CHR ''-'' \<or> c = CHR ''+'' then cs else s0)
             in if length s < 1 then (0, Some ErrSyntax)
                else
                  (case Atoi_loop s 0 of
                     (n, Some err) \<Rightarrow> (n, Some err)
                   | (n, None) \<Rightarrow> (if c = CHR ''-'' then - n else n, None)))
          else ParseInt s0)"

subsection \<open>Package net/url\<close>

definition ishex :: "char \<Rightarrow> bool" where
  "ishex c = (let n = (of_char c :: nat)
              in (48 \<le> n \<and> n \<le> 57) \<or> (97 \<le> n \<and> n \<le> 102) \<or> (65 \<le> n \<and> n \<le> 70))"

definition unhex :: "char \<Rightarrow> nat" where
  "unhex c = (let n = (of_char c :: nat)
              in if 48 \<le> n \<and> n \<le> 57 then n - 48
                 else if 97 \<le> n \<and> n \<le> 102 then n - 97 + 10
                 else if 65 \<le> n \<and> n \<le> 70 then n - 65 + 10
                 else 0)"

text \<open>\<open>url.QueryUnescape\<close>: \<open>%XX\<close> becomes the byte XX, \<open>+\<close> becomes a space.\<close>

fun QueryUnescape :: "string \<Rightarrow> error + string" where
  "QueryUnescape [] = Inr []"
| "QueryUnescape (c # cs) =
     (if c = CHR ''%'' then
        (case cs of
           h1 # h2 # rest \<Rightarrow>
             if ishex h1 \<and> ishex h2 then
               (case QueryUnescape rest of
                  Inl e \<Rightarrow> Inl e
                | Inr r \<Rightarrow> Inr (char_of (unhex h1 * 16 + unhex h2) # r))
             else Inl EscapeError
         | _ \<Rightarrow> Inl EscapeError)
      else
        (case QueryUnescape cs of
           Inl e \<Rightarrow> Inl e
         | Inr r \<Rightarrow> Inr ((if c = CHR ''+'' then CHR 0x20 else c) # r)))"

text \<open>
  \<open>url.Values\<close> is \<open>map[string][]string\<close>; the model keeps the keys in the order of their
  first insertion, one entry per key.
\<close>

type_synonym Values = "(string \<times> string list) list"

definition Values_add :: "Values \<Rightarrow> string \<Rightarrow> string \<Rightarrow> Values" where
  "Values_add m k v =
     (case map_of m k of
        None \<Rightarrow> m @ [(k, [v])]
      | Some _ \<Rightarrow> map (\<lambda>(k', vs). if k' = k then (k', vs @ [v]) else (k', vs)) m)"

definition Values_Get :: "Values \<Rightarrow> string \<Rightarrow> string" where
  "Values_Get m k = (case map_of m k of Some (v # _) \<Rightarrow> v | _ \<Rightarrow> [])"

lemma Cut_shorter:
  assumes "query \<noteq> []"
  shows "length (snd (Cut query sep)) < length query"
proof -
  have "length (dropWhile (\<lambda>c. c \<noteq> sep) query) \<le> length query"
    by (rule length_dropWhile_le)
  moreover have "0 < length query"
    using assms by simp
  ultimately show ?thesis
    unfolding Cut_def snd_conv length_drop by linarith
qed

text \<open>
  The loop of \<open>url.ParseQuery\<close>: one \<open>&\<close>-separated piece at a time. A piece with a
  semicolon sets the error, an empty piece is skipped, a piece whose key or value does not
  unescape records the first such error; every other piece is appended to its key.
\<close>

function parseQuery :: "Values \<Rightarrow> error option \<Rightarrow> string \<Rightarrow> Values \<times> error option" where
  "parseQuery m err query =
     (if query = [] then (m, err)
      else
        let key = fst (Cut query (CHR ''&'')); query' = snd (Cut query (CHR ''&''))
        in if CHR '';'' \<in> set key then parseQuery m (Some SemicolonError) query'
           else if key = [] then parseQuery m err query'
           else
             (case QueryUnescape (fst (Cut key (CHR ''=''))) of
                Inl err1 \<Rightarrow> parseQuery m (if err = None then Some err1 else err) query'
              | Inr k \<Rightarrow>
                  (case QueryUnescape (snd (Cut key (CHR ''=''))) of
                     Inl err1 \<Rightarrow> parseQuery m (if err = None then Some err1 else err) query'
                   | Inr v \<Rightarrow> parseQuery (Values_add m k v) err query')))"
  by pat_completeness auto
termination
  by (relation "measure (\<lambda>(m, err, query). length query)") (auto simp: Cut_shorter)

declare parseQuery.simps [simp del]

definition ParseQuery :: "string \<Rightarrow> Values \<times> error option" where
  "ParseQuery query = parseQuery [] None query"

text \<open>
  \<open>url.Parse\<close> is not modelled: the resolver reads only \<open>Scheme\<close> and \<open>Host\<close> of its result,
  and the parser itself is a parameter of the environment below.
\<close>

record URL =
  Scheme :: string
  Host :: string

section \<open>The parsed page: goquery selections\<close>

text \<open>
  A parsed HTML document is a tree of text and element nodes; an element has a tag name,
  its attributes in source order and its children.
\<close>

datatype node =
    TextNode string
  | ElementNode string "(string \<times> string) list" "node list"

text \<open>The selectors the resolver uses: a tag name, optionally with one \<open>[key='val']\<close> test.\<close>

datatype selector = Sel string "(string \<times> string) option"

fun matches :: "selector \<Rightarrow> node \<Rightarrow> bool" where
  "matches s (TextNode t) = False"
| "matches (Sel tag None) (ElementNode name attrs cs) = (name = tag)"
| "matches (Sel tag (Some kv)) (ElementNode name attrs cs) = (name = tag \<and> kv \<in> set attrs)"

fun descendants :: "node \<Rightarrow> node list" where
  "descendants (TextNode t) = []"
| "descendants (ElementNode name attrs cs) = concat (map (\<lambda>c. c # descendants c) cs)"

text \<open>\<open>doc.Find(sel)\<close>: the matching descendants of the document node, in document order.\<close>

definition Find :: "node \<Rightarrow> selector \<Rightarrow> node list" where
  "Find doc sel = filter (matches sel) (descendants doc)"

fun getNodeText :: "node \<Rightarrow> string" where
  "getNodeText (TextNode t) = t"
| "getNodeText (ElementNode name attrs cs) = concat (map getNodeText cs)"

text \<open>\<open>Selection.Text()\<close>: the text of every node of the selection, concatenated.\<close>

definition Text :: "node list \<Rightarrow> string" where
  "Text sel = concat (map getNodeText sel)"

fun getAttributeValue :: "string \<Rightarrow> node \<Rightarrow> string option" where
  "getAttributeValue a (TextNode t) = None"
| "getAttributeValue a (ElementNode name attrs cs) = map_of attrs a"

text \<open>
  \<open>Selection.Attr(name)\<close>: the attribute of the FIRST node of the selection; \<open>None\<close> is
  Go's \<open>exists = false\<close> (empty selection, or a first node without the attribute).
\<close>

definition Attr :: "node list \<Rightarrow> string \<Rightarrow> string option" where
  "Attr sel a = (case sel of [] \<Rightarrow> None | n # _ \<Rightarrow> getAttributeValue a n)"

section \<open>The environment of one invocation\<close>

text \<open>
  What the service reaches outside itself and this file does not define: the remote pages
  (\<open>client.Get\<close>, then \<open>goquery.NewDocumentFromReader\<close> on the body), \<open>url.Parse\<close>,
  \<open>sql.Open\<close>, the four templates (whether the text of the template of a given name
  parses, and what executing it on a value gives) and \<open>json.Marshal\<close>. Each is a
  function that returns an error or a result. The type of what a template or the encoder
  is applied to is a parameter here and becomes the renderer's \<open>data\<close> below.
\<close>

record 'd env =
  Get :: "string \<Rightarrow> error + string"
  NewDocumentFromReader :: "string \<Rightarrow> error + node"
  url_Parse :: "string \<Rightarrow> error + URL"
  sql_Open :: "error option"
  Parse :: "string \<Rightarrow> bool"
  Execute :: "string \<Rightarrow> 'd \<Rightarrow> error + string"
  Marshal :: "'d \<Rightarrow> error + string"

section \<open>The metadata resolver (\<open>fetchMetadata\<close>)\<close>

record LinkMetadata =
  Title :: string
  ImageURL :: string

text \<open>Lines 61 to 68: the title.\<close>

definition extract_title :: "node \<Rightarrow> string" where
  "extract_title doc =
     (let title = Text (Find doc (Sel ''title'' None))
      in if title \<noteq> [] then TrimSpace title
         else
           (case Attr (Find doc (Sel ''meta'' (Some (''property'', ''og:title'')))) ''content'' of
              Some title \<Rightarrow> TrimSpace title
            | None \<Rightarrow>
                (case Attr (Find doc (Sel ''meta'' (Some (''name'', ''title'')))) ''content'' of
                   Some title \<Rightarrow> TrimSpace title
                 | None \<Rightarrow> [])))"

text \<open>
  Lines 78 to 93: the callback of \<open>Each\<close> over the \<open>img\<close> elements. Its only effect
  is on \<open>metadata.ImageURL\<close>, which is the accumulator \<open>acc\<close>.
\<close>

definition img_callback :: "'d env \<Rightarrow> string \<Rightarrow> node \<Rightarrow> string \<Rightarrow> string" where
  "img_callback E urlStr s acc =
     (if acc = [] then
        (case Attr [s] ''src'' of
           Some src \<Rightarrow>
             if HasPrefix src ''//'' then ''https:'' @ src
             else if HasPrefix src ''/'' then
               (case url_Parse E urlStr of
                  Inr u \<Rightarrow> (Scheme u @ ''://'' @ Host u) @ src
                | Inl err \<Rightarrow> acc)
             else if HasPrefix src ''http'' then src
             else acc
         | None \<Rightarrow> acc)
      else acc)"

text \<open>Lines 76 to 94: \<open>doc.Find("img").Each(...)\<close>, started with the image URL still empty.\<close>

definition img_fallback :: "'d env \<Rightarrow> string \<Rightarrow> node \<Rightarrow> string" where
  "img_fallback E urlStr doc = fold (img_callback E urlStr) (Find doc (Sel ''img'' None)) []"

text \<open>Lines 70 to 95: the image.\<close>

definition extract_image :: "'d env \<Rightarrow> string \<Rightarrow> node \<Rightarrow> string" where
  "extract_image E urlStr doc =
     (case Attr (Find doc (Sel ''meta'' (Some (''property'', ''og:image'')))) ''content'' of
        Some img \<Rightarrow> img
      | None \<Rightarrow>
          (case Attr (Find doc (Sel ''meta'' (Some (''name'', ''twitter:image'')))) ''content'' of
             Some img \<Rightarrow> img
           | None \<Rightarrow> img_fallback E urlStr doc))"

definition fetchMetadata :: "'d env \<Rightarrow> string \<Rightarrow> LinkMetadata \<times> error option" where
  "fetchMetadata E urlStr =
     (case Get E urlStr of
        Inl err \<Rightarrow> (\<lparr>Title = [], ImageURL = []\<rparr>, Some err)
      | Inr body \<Rightarrow>
          (case NewDocumentFromReader E body of
             Inl err \<Rightarrow> (\<lparr>Title = [], ImageURL = []\<rparr>, Some err)
           | Inr doc \<Rightarrow>
               (\<lparr>Title = extract_title doc, ImageURL = extract_image E urlStr doc\<rparr>, None)))"

section \<open>The link table (package \<open>models\<close>)\<close>

text \<open>
  Modelled from the spec: the types of package \<open>models\<close> (not part of the sources).
  A Link has an integer \<open>id\<close>, a \<open>url\<close>, a \<open>commentary\<close> and an optional \<open>title\<close> and
  \<open>imageURL\<close>; the field names are those that \<open>handler\<close> reads and writes, and an
  optional string is a \<open>sql.NullString\<close>: the string and the flag that it is present.
\<close>

record NullString =
  String :: string
  Valid :: bool

text \<open>
  Modelled from the spec: \<open>models.CreateLinkParams\<close> (package models is not part of the
  sources), the four values of the insert.
\<close>

record CreateLinkParams =
  Url :: string
  Commentary :: string
  Title :: NullString
  ImageUrl :: NullString

text \<open>
  Modelled from the spec: \<open>models.Link\<close> and \<open>models.UpdateLinkParams\<close> (package
  models is not part of the sources) have the fields of \<open>models.CreateLinkParams\<close> and
  \<open>ID\<close>.
\<close>

record Link = CreateLinkParams +
  ID :: int

type_synonym UpdateLinkParams = Link

definition zeroNullString :: NullString where
  "zeroNullString = \<lparr>String = [], Valid = False\<rparr>"

definition zeroCreateLinkParams :: CreateLinkParams where
  "zeroCreateLinkParams =
     \<lparr>Url = [], Commentary = [], Title = zeroNullString, ImageUrl = zeroNullString\<rparr>"

definition zeroLink :: Link where
  "zeroLink =
     \<lparr>Url = [], Commentary = [], Title = zeroNullString, ImageUrl = zeroNullString, ID = 0\<rparr>"

text \<open>
  Everything one invocation can change or cause: the rows of table \<open>links\<close>, the outcomes
  of the store calls still to come (\<open>Some err\<close>: the call fails with \<open>err\<close> and changes
  nothing; an exhausted list means no further failure), and the trace of the calls made to
  the store and to the network, oldest first.
\<close>

datatype event =
    Fetch string
  | ExecDDL
  | DbGetLink int
  | DbListLinks
  | DbCreateLink CreateLinkParams
  | DbUpdateLink Link
  | DbDeleteLink int

record world =
  rows :: "Link list"
  faults :: "error option list"
  trace :: "event list"

text \<open>
  Modelled from the spec: one call of the store (package models is not part of the
  sources). It is recorded in the trace and takes the next outcome of the schedule: any
  repository failure is an error returned to the dispatcher, with no retry.
\<close>

definition store_call :: "event \<Rightarrow> world \<Rightarrow> error option \<times> world" where
  "store_call ev w =
     (case faults w of
        [] \<Rightarrow> (None, w\<lparr>trace := trace w @ [ev]\<rparr>)
      | f # fs \<Rightarrow> (f, w\<lparr>faults := fs, trace := trace w @ [ev]\<rparr>))"

text \<open>
  Modelled from the spec: the table is created idempotently at process start if absent
  (\<open>db.ExecContext(ctx, embedsql.DDL)\<close>; schema.sql is not part of the sources).
\<close>

definition ExecContext_DDL :: "world \<Rightarrow> error option \<times> world" where
  "ExecContext_DDL w = store_call ExecDDL w"

text \<open>
  Modelled from the spec: the identifier is assigned by the store on creation and
  identifies the link uniquely (the schema is not part of the sources): the identifier
  of a new row is above every identifier in the table.
\<close>

definition fresh_id :: "Link list \<Rightarrow> int" where
  "fresh_id rs = fold max (map ID rs) 0 + 1"

text \<open>
  Modelled from the spec: \<open>models.Queries.CreateLink\<close> (package models is not part of the
  sources), query \<open>INSERT INTO links (url, commentary, title, image_url) VALUES (?, ?, ?, ?)\<close>
  returning the last inserted id: the identifier is assigned by the store on creation and
  identifies the link uniquely.
\<close>

definition CreateLink :: "world \<Rightarrow> CreateLinkParams \<Rightarrow> (int \<times> error option) \<times> world" where
  "CreateLink w arg =
     (let (f, w1) = store_call (DbCreateLink arg) w
      in case f of
           Some err \<Rightarrow> ((0, Some err), w1)
         | None \<Rightarrow>
             (let i = fresh_id (rows w1)
              in ((i, None),
                  w1\<lparr>rows := rows w1 @
                    [\<lparr>Url = Url arg, Commentary = Commentary arg, Title = Title arg,
                      ImageUrl = ImageUrl arg, ID = i\<rparr>]\<rparr>)))"

text \<open>
  Modelled from the spec: \<open>models.Queries.GetLink\<close> (package models is not part of the
  sources), query \<open>SELECT id, url, commentary, title, image_url FROM links WHERE id = ?\<close>
  for one row: a store failure, or no row with this id (\<open>sql.ErrNoRows\<close>), is an error
  next to the zero Link.
\<close>

definition GetLink :: "world \<Rightarrow> int \<Rightarrow> (Link \<times> error option) \<times> world" where
  "GetLink w i =
     (let (f, w1) = store_call (DbGetLink i) w
      in case f of
           Some err \<Rightarrow> ((zeroLink, Some err), w1)
         | None \<Rightarrow>
             (case find (\<lambda>r. ID r = i) (rows w1) of
                None \<Rightarrow> ((zeroLink, Some ErrNoRows), w1)
              | Some r \<Rightarrow> ((r, None), w1)))"

text \<open>
  Modelled from the spec: \<open>models.Queries.ListLinks\<close> (package models is not part of the
  sources), query \<open>SELECT ... FROM links ORDER BY id DESC\<close>: all links, ordered by
  identifier descending.
\<close>

definition ListLinks :: "world \<Rightarrow> (Link list \<times> error option) \<times> world" where
  "ListLinks w =
     (let (f, w1) = store_call DbListLinks w
      in case f of
           Some err \<Rightarrow> (([], Some err), w1)
         | None \<Rightarrow> ((rev (sort_key ID (rows w1)), None), w1))"

text \<open>
  Modelled from the spec: \<open>models.Queries.UpdateLink\<close> (package models is not part of the
  sources), query
  \<open>UPDATE links SET url = ?, commentary = ?, title = ?, image_url = ? WHERE id = ?\<close>.
\<close>

definition UpdateLink :: "world \<Rightarrow> UpdateLinkParams \<Rightarrow> error option \<times> world" where
  "UpdateLink w arg =
     (let (f, w1) = store_call (DbUpdateLink arg) w
      in case f of
           Some err \<Rightarrow> (Some err, w1)
         | None \<Rightarrow>
             (None,
              w1\<lparr>rows := map (\<lambda>r. if ID r = ID arg
                                   then r\<lparr>Url := Url arg, Commentary := Commentary arg,
                                          Title := Title arg, ImageUrl := ImageUrl arg\<rparr>
                                   else r) (rows w1)\<rparr>))"

text \<open>
  Modelled from the spec: \<open>models.Queries.DeleteLink\<close> (package models is not part of the
  sources), query \<open>DELETE FROM links WHERE id = ?\<close>.
\<close>

definition DeleteLink :: "world \<Rightarrow> int \<Rightarrow> error option \<times> world" where
  "DeleteLink w i =
     (let (f, w1) = store_call (DbDeleteLink i) w
      in case f of
           Some err \<Rightarrow> (Some err, w1)
         | None \<Rightarrow> (None, w1\<lparr>rows := filter (\<lambda>r. ID r \<noteq> i) (rows w1)\<rparr>))"

section \<open>Requests and responses\<close>

record APIGatewayProxyRequest =
  HTTPMethod :: string
  Headers :: "string \<rightharpoonup> string"
  QueryStringParameters :: "string \<rightharpoonup> string"
  Body :: string

text \<open>
  The headers of a response are written once, as a map literal, and never read by the
  service: they are kept as the list of the literal's entries.
\<close>

record APIGatewayProxyResponse =
  StatusCode :: int
  Headers :: "(string \<times> string) list"
  Body :: string

text \<open>Indexing a Go \<open>map[string]string\<close>: the empty string for a key that is absent.\<close>

definition index :: "(string \<rightharpoonup> string) \<Rightarrow> string \<Rightarrow> string" where
  "index m k = (case m k of None \<Rightarrow> [] | Some v \<Rightarrow> v)"

text \<open>\<open>events.APIGatewayProxyResponse{StatusCode: c, Body: b}\<close>, without headers.\<close>

definition plain :: "int \<Rightarrow> string \<Rightarrow> APIGatewayProxyResponse" where
  "plain c b = \<lparr>StatusCode = c, Headers = [], Body = b\<rparr>"

text \<open>A response 200 with a \<open>Content-Type\<close> header.\<close>

definition typed :: "string \<Rightarrow> string \<Rightarrow> APIGatewayProxyResponse" where
  "typed ct b = \<lparr>StatusCode = 200, Headers = [(''Content-Type'', ct)], Body = b\<rparr>"

section \<open>The renderer (\<open>respond\<close>)\<close>

text \<open>
  The dynamic type of the \<open>any\<close> that \<open>respond\<close> receives: a slice of links, one link, or
  a value of another type (with the name of that type).
\<close>

datatype data =
    Links "Link list"
  | OneLink Link
  | Other string

definition respond ::
  "data env \<Rightarrow> APIGatewayProxyRequest \<Rightarrow> data \<Rightarrow> APIGatewayProxyResponse \<times> error option" where
  "respond E req d =
     (if index (APIGatewayProxyRequest.Headers req) ''hx-request'' = ''true'' then
        (case d of
           Links v \<Rightarrow>
             (case Execute E ''list'' (Links v) of
                Inl err \<Rightarrow> (plain 500 [], Some err)
              | Inr tpl \<Rightarrow> (typed ''text/html'' tpl, None))
         | OneLink v \<Rightarrow>
             (if index (QueryStringParameters req) ''view'' = ''detail'' then
                (case Execute E ''detail'' (OneLink v) of
                   Inl err \<Rightarrow> (plain 500 [], Some err)
                 | Inr tpl \<Rightarrow> (typed ''text/html'' tpl, None))
              else
                (case Execute E ''link'' (OneLink v) of
                   Inl err \<Rightarrow> (plain 500 [], Some err)
                 | Inr tpl \<Rightarrow> (typed ''text/html'' tpl, None)))
         | Other t \<Rightarrow> (plain 400 [], Some (UnsupportedType t)))
      else
        (case Marshal E d of
           Inl err \<Rightarrow> (plain 500 [], Some err)
         | Inr dataBytes \<Rightarrow> (typed ''application/json'' dataBytes, None)))"

section \<open>The dispatcher (\<open>handler\<close>)\<close>

type_synonym result = "(APIGatewayProxyResponse \<times> error option) \<times> world"

text \<open>
  The call \<open>fetchMetadata(Url)\<close> as the dispatcher makes it: the outbound request is
  recorded in the trace.
\<close>

definition call_fetchMetadata ::
  "data env \<Rightarrow> string \<Rightarrow> world \<Rightarrow> (LinkMetadata \<times> error option) \<times> world" where
  "call_fetchMetadata E urlStr w = (fetchMetadata E urlStr, w\<lparr>trace := trace w @ [Fetch urlStr]\<rparr>)"

text \<open>
  Lines 167 to 170 and 221 to 224: with a resolver result without error, both metadata
  fields of the parameters are set from it; with an error they are left as they are.
\<close>

definition set_metadata ::
  "LinkMetadata \<times> error option \<Rightarrow> 'a CreateLinkParams_scheme \<Rightarrow> 'a CreateLinkParams_scheme" where
  "set_metadata r link =
     (case snd r of
        None \<Rightarrow>
          link\<lparr>Title := \<lparr>String = LinkMetadata.Title (fst r),
                          Valid = (LinkMetadata.Title (fst r) \<noteq> [])\<rparr>,
               ImageUrl := \<lparr>String = ImageURL (fst r), Valid = (ImageURL (fst r) \<noteq> [])\<rparr>\<rparr>
      | Some err \<Rightarrow> link)"

text \<open>Lines 128 to 150: \<open>case http.MethodGet\<close>.\<close>

definition handle_get :: "data env \<Rightarrow> APIGatewayProxyRequest \<Rightarrow> world \<Rightarrow> result" where
  "handle_get E req w =
     (if index (QueryStringParameters req) ''id'' \<noteq> [] then
        (let linkIdStr = index (QueryStringParameters req) ''id'';
             ok = (QueryStringParameters req ''id'' \<noteq> None)
         in if \<not> ok then ((plain 400 ''Missing link ID'', None), w)
            else
              (let (linkId, err) = Atoi linkIdStr
               in if err \<noteq> None then ((plain 400 ''Invalid link ID'', None), w)
                  else
                    (let ((linkObj, err), w1) = GetLink w linkId
                     in case err of
                          Some e \<Rightarrow> ((plain 500 (Error e), None), w1)
                        | None \<Rightarrow> (respond E req (OneLink linkObj), w1))))
      else
        (let ((links, err), w1) = ListLinks w
         in case err of
              Some e \<Rightarrow> ((plain 500 [], Some e), w1)
            | None \<Rightarrow> (respond E req (Links links), w1)))"

text \<open>Lines 151 to 177: \<open>case http.MethodPost\<close>.\<close>

definition handle_post :: "data env \<Rightarrow> APIGatewayProxyRequest \<Rightarrow> world \<Rightarrow> result" where
  "handle_post E req w =
     (let (formData, err) = ParseQuery (APIGatewayProxyRequest.Body req)
      in if err \<noteq> None then ((plain 400 ''Invalid request body'', None), w)
         else
           (let url = Values_Get formData ''url'';
                content = Values_Get formData ''commentary''
            in if content = [] \<or> url = [] then ((plain 400 ''Invalid request body'', None), w)
               else
                 (let link = zeroCreateLinkParams\<lparr>Url := url, Commentary := content\<rparr>;
                      (metadata, w1) = call_fetchMetadata E url w;
                      link = set_metadata metadata link;
                      ((createdLinkId, err), w2) = CreateLink w1 link
                  in case err of
                       Some e \<Rightarrow> ((plain 500 (Error e), None), w2)
                     | None \<Rightarrow>
                         (let ((createdLink, err), w3) = GetLink w2 createdLinkId
                          in (respond E req (OneLink createdLink), w3)))))"

text \<open>Lines 184 to 197: the edit-form branch of \<open>case http.MethodPut\<close>.\<close>

definition put_edit_form :: "data env \<Rightarrow> string \<Rightarrow> world \<Rightarrow> result" where
  "put_edit_form E linkIdStr w =
     (let (linkId, err) = Atoi linkIdStr;
          ((linkObj, err), w1) = GetLink w linkId
      in case Execute E ''edit'' (OneLink linkObj) of
           Inl e \<Rightarrow> ((plain 500 (Error e), None), w1)
         | Inr tpl \<Rightarrow> ((typed ''text/html'' tpl, None), w1))"

text \<open>
  Lines 198 to 239: the full update of \<open>case http.MethodPut\<close>. The test of line 204 reads
  an \<open>err\<close> that line 200 has found nil, so it never fires and has no branch here.
\<close>

definition put_update ::
  "data env \<Rightarrow> APIGatewayProxyRequest \<Rightarrow> string \<Rightarrow> Values \<Rightarrow> world \<Rightarrow> result" where
  "put_update E req linkIdStr formData w =
     (let (linkId, err) = Atoi linkIdStr;
          ((linkObj, err), w1) = GetLink w linkId
      in if err \<noteq> None then ((plain 400 ''Invalid link ID'', None), w1)
         else
           (let url = Values_Get formData ''url'';
                content = Values_Get formData ''commentary''
            in if content = [] \<or> url = [] then ((plain 400 ''Invalid request body'', None), w1)
               else
                 (let link = (if url \<noteq> [] \<and> url \<noteq> Url linkObj then zeroLink\<lparr>Url := url\<rparr>
                              else zeroLink);
                      link = link\<lparr>ID := ID linkObj, Url := url, Commentary := content\<rparr>;
                      (link, w2) =
                        (if url \<noteq> Url linkObj then
                           (let (metadata, w') = call_fetchMetadata E url w1
                            in (set_metadata metadata link, w'))
                         else (link\<lparr>Title := Title linkObj, ImageUrl := ImageUrl linkObj\<rparr>, w1));
                      (err, w3) = UpdateLink w2 link
                  in case err of
                       Some e \<Rightarrow> ((plain 500 (Error e), None), w3)
                     | None \<Rightarrow>
                         (let ((linkObj, err), w4) = GetLink w3 linkId
                          in case err of
                               Some e \<Rightarrow> ((plain 500 (Error e), None), w4)
                             | None \<Rightarrow> (respond E req (OneLink linkObj), w4)))))"

text \<open>Lines 178 to 239: \<open>case http.MethodPut\<close>.\<close>

definition handle_put :: "data env \<Rightarrow> APIGatewayProxyRequest \<Rightarrow> world \<Rightarrow> result" where
  "handle_put E req w =
     (let linkIdStr = index (QueryStringParameters req) ''id'';
          (formData, err) = ParseQuery (APIGatewayProxyRequest.Body req)
      in if err \<noteq> None then ((plain 400 ''Invalid request body'', None), w)
         else if length formData = 0 \<and> linkIdStr \<noteq> [] then put_edit_form E linkIdStr w
         else put_update E req linkIdStr formData w)"

text \<open>Lines 241 to 261: \<open>case http.MethodDelete\<close>.\<close>

definition handle_delete :: "data env \<Rightarrow> APIGatewayProxyRequest \<Rightarrow> world \<Rightarrow> result" where
  "handle_delete E req w =
     (let linkIdStr = index (QueryStringParameters req) ''id'';
          ok = (QueryStringParameters req ''id'' \<noteq> None)
      in if linkIdStr = [] then ((plain 400 ''Missing link ID'', None), w)
         else if \<not> ok then ((plain 400 ''Missing link'', None), w)
         else
           (let (linkId, err) = Atoi linkIdStr
            in if err \<noteq> None then ((plain 400 ''Invalid link ID'', None), w)
               else
                 (let (err, w1) = DeleteLink w linkId
                  in case err of
                       Some e \<Rightarrow> ((plain 500 (Error e), None), w1)
                     | None \<Rightarrow> ((typed ''text/html'' [], None), w1))))"

text \<open>Lines 127 to 264: the \<open>switch req.HTTPMethod\<close>.\<close>

definition dispatch :: "data env \<Rightarrow> APIGatewayProxyRequest \<Rightarrow> world \<Rightarrow> result" where
  "dispatch E req w =
     (if HTTPMethod req = ''GET'' then handle_get E req w
      else if HTTPMethod req = ''POST'' then handle_post E req w
      else if HTTPMethod req = ''PUT'' then handle_put E req w
      else if HTTPMethod req = ''DELETE'' then handle_delete E req w
      else ((plain 200 [], None), w))"

text \<open>
  Lines 104 to 265: \<open>handler\<close>. Before the switch it opens the database, creates the
  table and compiles the four templates; \<open>template.Must\<close> panics on a template text
  that does not parse.
\<close>

datatype outcome =
    Panicked
  | Returned APIGatewayProxyResponse "error option"

definition handler :: "data env \<Rightarrow> APIGatewayProxyRequest \<Rightarrow> world \<Rightarrow> outcome \<times> world" where
  "handler E req w =
     (case sql_Open E of
        Some err \<Rightarrow> (Returned (plain 500 []) (Some err), w)
      | None \<Rightarrow>
          (let (err, w1) = ExecContext_DDL w
           in case err of
                Some e \<Rightarrow> (Returned (plain 500 []) (Some e), w1)
              | None \<Rightarrow>
                  if \<not> (Parse E ''link'' \<and> Parse E ''list'' \<and> Parse E ''edit'' \<and> Parse E ''detail'')
                  then (Panicked, w1)
                  else
                    (let ((resp, err), w2) = dispatch E req w1
                     in (Returned resp err, w2))))"

section \<open>What the dispatcher hands to the store\<close>

text \<open>
  Lines 163 to 170: the parameters of \<open>CreateLink\<close>, and the row that the insert adds
  under identifier \<open>i\<close>.
\<close>

definition create_params :: "data env \<Rightarrow> string \<Rightarrow> string \<Rightarrow> CreateLinkParams" where
  "create_params E url content =
     set_metadata (fetchMetadata E url) (zeroCreateLinkParams\<lparr>Url := url, Commentary := content\<rparr>)"

definition created_row :: "CreateLinkParams \<Rightarrow> int \<Rightarrow> Link" where
  "created_row arg i =
     \<lparr>Url = Url arg, Commentary = Commentary arg, Title = Title arg, ImageUrl = ImageUrl arg, ID = i\<rparr>"

text \<open>
  Lines 212 to 229: the parameters of \<open>UpdateLink\<close> for the stored link \<open>linkObj\<close>, and
  the rows after the update.
\<close>

definition update_params :: "data env \<Rightarrow> Link \<Rightarrow> string \<Rightarrow> string \<Rightarrow> Link" where
  "update_params E linkObj url content =
     (if url \<noteq> Url linkObj
      then set_metadata (fetchMetadata E url)
             (zeroLink\<lparr>ID := ID linkObj, Url := url, Commentary := content\<rparr>)
      else zeroLink\<lparr>ID := ID linkObj, Url := url, Commentary := content,
                    Title := Title linkObj, ImageUrl := ImageUrl linkObj\<rparr>)"

definition apply_update :: "Link \<Rightarrow> Link list \<Rightarrow> Link list" where
  "apply_update arg rs =
     map (\<lambda>r. if ID r = ID arg
               then r\<lparr>Url := Url arg, Commentary := Commentary arg,
                      Title := Title arg, ImageUrl := ImageUrl arg\<rparr>
               else r) rs"

section \<open>Events of interest in a trace\<close>

fun is_fetch :: "event \<Rightarrow> bool" where
  "is_fetch (Fetch u) = True"
| "is_fetch ev = False"

fun is_write :: "event \<Rightarrow> bool" where
  "is_write (DbCreateLink arg) = True"
| "is_write (DbUpdateLink arg) = True"
| "is_write ev = False"

section \<open>The fallback rules as the specification words them\<close>

text \<open>
  The title rules as an ordered list of extractors, the first that matches wins: the
  \<open>title\<close> element matches when its text is not empty, a \<open>meta\<close> element matches when
  it carries a \<open>content\<close> attribute.
\<close>

definition rule_title_element :: "node \<Rightarrow> string option" where
  "rule_title_element doc =
     (if Text (Find doc (Sel ''title'' None)) = [] then None
      else Some (Text (Find doc (Sel ''title'' None))))"

definition rule_og_title :: "node \<Rightarrow> string option" where
  "rule_og_title doc = Attr (Find doc (Sel ''meta'' (Some (''property'', ''og:title'')))) ''content''"

definition rule_meta_title :: "node \<Rightarrow> string option" where
  "rule_meta_title doc = Attr (Find doc (Sel ''meta'' (Some (''name'', ''title'')))) ''content''"

fun first_match :: "('a \<Rightarrow> 'b option) list \<Rightarrow> 'a \<Rightarrow> 'b option" where
  "first_match [] x = None"
| "first_match (r # rs) x = (case r x of Some y \<Rightarrow> Some y | None \<Rightarrow> first_match rs x)"

text \<open>
  The title chain in the words of the specification, "first non-empty match wins": the
  first of the three trimmed values that is not empty, and the empty title without one.
\<close>

definition the_default :: "string option \<Rightarrow> string" where
  "the_default x = (case x of None \<Rightarrow> [] | Some v \<Rightarrow> v)"

definition first_nonempty :: "string list \<Rightarrow> string" where
  "first_nonempty xs = (case filter (\<lambda>s. s \<noteq> []) xs of [] \<Rightarrow> [] | x # _ \<Rightarrow> x)"

definition title_first_nonempty :: "node \<Rightarrow> string" where
  "title_first_nonempty doc =
     first_nonempty
       [TrimSpace (Text (Find doc (Sel ''title'' None))),
        TrimSpace (the_default (rule_og_title doc)),
        TrimSpace (the_default (rule_meta_title doc))]"

text \<open>
  The image URL that the specification constructs from one \<open>src\<close> attribute, if any:
  protocol-relative, root-relative (skipped when the page URL does not parse), already
  absolute, and every other form skipped.
\<close>

definition usable_src :: "'d env \<Rightarrow> string \<Rightarrow> string \<Rightarrow> string option" where
  "usable_src E urlStr src =
     (if HasPrefix src ''//'' then Some (''https:'' @ src)
      else if HasPrefix src ''/'' then
        (case url_Parse E urlStr of
           Inr u \<Rightarrow> Some (Scheme u @ ''://'' @ Host u @ src)
         | Inl err \<Rightarrow> None)
      else if HasPrefix src ''http'' then Some src
      else None)"

definition usable_img :: "'d env \<Rightarrow> string \<Rightarrow> node \<Rightarrow> string option" where
  "usable_img E urlStr s = (case Attr [s] ''src'' of None \<Rightarrow> None | Some src \<Rightarrow> usable_src E urlStr src)"

section \<open>Example inputs\<close>

definition page_logo :: node where
  "page_logo =
     ElementNode [] []
       [ElementNode ''html'' []
          [ElementNode ''head'' [] [],
           ElementNode ''body'' []
             [ElementNode ''img'' [(''alt'', ''no source'')] [],
              ElementNode ''img'' [(''src'', ''logo.png'')] [],
              ElementNode ''img'' [(''src'', ''/logo.png'')] [],
              ElementNode ''img'' [(''src'', ''//cdn.site.com/a.png'')] []]]]"

definition page_empty_og :: node where
  "page_empty_og =
     ElementNode [] []
       [ElementNode ''html'' []
          [ElementNode ''head'' []
             [ElementNode ''meta'' [(''property'', ''og:title''), (''content'', [])] [],
              ElementNode ''meta'' [(''name'', ''title''), (''content'', ''Hello'')] []],
           ElementNode ''body'' [] []]]"

definition page_titled :: node where
  "page_titled =
     ElementNode [] []
       [ElementNode ''html'' []
          [ElementNode ''head'' []
             [ElementNode ''title'' [] [TextNode '' Ex ''],
              ElementNode ''meta'' [(''property'', ''og:title''), (''content'', ''Og'')] []],
           ElementNode ''body'' [] []]]"

definition page_nbsp_title :: node where
  "page_nbsp_title =
     ElementNode [] []
       [ElementNode ''html'' []
          [ElementNode ''head'' []
             [ElementNode ''title'' [] [TextNode [CHR 0xC2, CHR 0xA0]],
              ElementNode ''meta'' [(''property'', ''og:title''), (''content'', ''Og'')] []],
           ElementNode ''body'' [] []]]"

definition show_link :: "Link \<Rightarrow> string" where
  "show_link l =
     Url l @ ''|'' @ Commentary l @ ''|'' @ String (Title l) @ ''|'' @ String (ImageUrl l)"

fun show_data :: "data \<Rightarrow> string" where
  "show_data (Links v) = concat (map (\<lambda>l. show_link l @ '';'') v)"
| "show_data (OneLink v) = show_link v"
| "show_data (Other t) = t"

text \<open>
  An environment: two pages can be fetched, every other URL times out; templates and the
  encoder print the fields of their argument.
\<close>

definition E_ex :: "data env" where
  "E_ex =
     \<lparr>Get = (\<lambda>u. if u = ''https://site.com/post'' then Inr ''logo''
                  else if u = ''https://ex.com'' then Inr ''titled''
                  else Inl (NetError ''timeout'')),
      NewDocumentFromReader = (\<lambda>b. if b = ''logo'' then Inr page_logo else Inr page_titled),
      url_Parse = (\<lambda>u. if u = ''https://site.com/post''
                        then Inr \<lparr>Scheme = ''https'', Host = ''site.com''\<rparr>
                        else if u = ''https://ex.com''
                        then Inr \<lparr>Scheme = ''https'', Host = ''ex.com''\<rparr>
                        else Inl ErrSyntax),
      sql_Open = None,
      Parse = (\<lambda>name. True),
      Execute = (\<lambda>name d. Inr (name @ '':'' @ show_data d)),
      Marshal = (\<lambda>d. Inr (show_data d))\<rparr>"

definition request ::
  "string \<Rightarrow> (string \<times> string) list \<Rightarrow> (string \<times> string) list \<Rightarrow> string \<Rightarrow> APIGatewayProxyRequest" where
  "request m hs qs b =
     \<lparr>HTTPMethod = m, Headers = map_of hs, QueryStringParameters = map_of qs, Body = b\<rparr>"

definition link5 :: Link where
  "link5 =
     \<lparr>Url = ''https://ex.com'', Commentary = ''hi'',
      Title = \<lparr>String = ''Ex'', Valid = True\<rparr>,
      ImageUrl = zeroNullString, ID = 5\<rparr>"

definition link0 :: Link where
  "link0 =
     \<lparr>Url = ''https://zero.org'', Commentary = ''first'',
      Title = zeroNullString, ImageUrl = zeroNullString, ID = 0\<rparr>"

definition w_ex :: world where
  "w_ex = \<lparr>rows = [link0, link5], faults = [], trace = []\<rparr>"

definition w_down :: world where
  "w_down = \<lparr>rows = [link0, link5], faults = [Some (StoreFault ''connection lost'')], trace = []\<rparr>"

section \<open>Facts about the store calls\<close>

lemma store_call_rows: "store_call ev w = (f, w1) \<Longrightarrow> rows w1 = rows w \<and> trace w1 = trace w @ [ev]"
  by (auto simp: store_call_def split: list.splits)

lemma GetLink_frame: "GetLink w i = (r, w1) \<Longrightarrow> rows w1 = rows w \<and> trace w1 = trace w @ [DbGetLink i]"
  by (auto simp: GetLink_def Let_def dest: store_call_rows split: prod.splits option.splits)

lemma ListLinks_frame: "ListLinks w = (r, w1) \<Longrightarrow> rows w1 = rows w \<and> trace w1 = trace w @ [DbListLinks]"
  by (auto simp: ListLinks_def Let_def dest: store_call_rows split: prod.splits option.splits)

lemma DeleteLink_frame:
  "DeleteLink w i = (r, w1) \<Longrightarrow>
     trace w1 = trace w @ [DbDeleteLink i] \<and>
     (case r of Some e \<Rightarrow> rows w1 = rows w | None \<Rightarrow> rows w1 = filter (\<lambda>r. ID r \<noteq> i) (rows w))"
  by (auto simp: DeleteLink_def Let_def dest: store_call_rows split: prod.splits option.splits)

lemma UpdateLink_frame:
  "UpdateLink w arg = (r, w1) \<Longrightarrow>
     trace w1 = trace w @ [DbUpdateLink arg] \<and>
     (case r of
        Some e \<Rightarrow> rows w1 = rows w
      | None \<Rightarrow> rows w1 = map (\<lambda>r. if ID r = ID arg
                                   then r\<lparr>Url := Url arg, Commentary := Commentary arg,
                                          Title := Title arg, ImageUrl := ImageUrl arg\<rparr>
                                   else r) (rows w))"
  by (auto simp: UpdateLink_def Let_def dest: store_call_rows split: prod.splits option.splits)

lemma CreateLink_frame:
  "CreateLink w arg = ((i, r), w1) \<Longrightarrow>
     trace w1 = trace w @ [DbCreateLink arg] \<and>
     (case r of
        Some e \<Rightarrow> rows w1 = rows w
      | None \<Rightarrow> i = fresh_id (rows w) \<and>
                rows w1 = rows w @ [\<lparr>Url = Url arg, Commentary = Commentary arg, Title = Title arg,
                      ImageUrl = ImageUrl arg, ID = i\<rparr>])"
  by (auto simp: CreateLink_def Let_def dest: store_call_rows split: prod.splits option.splits)

lemma respond_status: "StatusCode (fst (respond E req d)) = 400 \<Longrightarrow> \<exists>t. d = Other t"
  by (auto simp: respond_def plain_def typed_def split: if_splits data.splits sum.splits)

lemma GetLink_ok:
  "GetLink w i = ((l, None), w1) \<Longrightarrow> find (\<lambda>r. ID r = i) (rows w) = Some l"
  by (auto simp: GetLink_def Let_def dest: store_call_rows split: prod.splits option.splits)

lemma find_unique:
  assumes "distinct (map ID rs)" "find (\<lambda>r. ID r = i) rs = Some l" "r \<in> set rs" "ID r = ID l"
  shows "r = l"
proof -
  from assms(2) have "l \<in> set rs"
    by (auto simp: find_Some_iff)
  moreover from assms(1) have "inj_on ID (set rs)"
    by (simp add: distinct_map)
  ultimately show ?thesis
    using assms(3,4) by (auto dest: inj_onD)
qed

lemma update_same_metadata:
  assumes "distinct (map ID rs)" "find (\<lambda>r. ID r = i) rs = Some l"
  shows "map (\<lambda>r. if ID r = ID l
                   then r\<lparr>Url := u, Commentary := c, Title := Title l, ImageUrl := ImageUrl l\<rparr>
                   else r) rs
         = map (\<lambda>r. if ID r = ID l then r\<lparr>Url := u, Commentary := c\<rparr> else r) rs"
proof (rule map_cong [OF refl])
  fix r assume "r \<in> set rs"
  show "(if ID r = ID l then r\<lparr>Url := u, Commentary := c, Title := Title l, ImageUrl := ImageUrl l\<rparr> else r)
      = (if ID r = ID l then r\<lparr>Url := u, Commentary := c\<rparr> else r)"
  proof (cases "ID r = ID l")
    case True
    with assms \<open>r \<in> set rs\<close> have "r = l" by (rule find_unique)
    then show ?thesis by simp
  next
    case False
    then show ?thesis by simp
  qed
qed

lemma store_call_no_fault:
  "faults w = [] \<Longrightarrow> store_call ev w = (None, w\<lparr>trace := trace w @ [ev]\<rparr>)"
  by (simp add: store_call_def)

lemma GetLink_no_fault:
  "GetLink w i = (r, w1) \<Longrightarrow> faults w = [] \<Longrightarrow> faults w1 = []"
  by (auto simp: GetLink_def Let_def store_call_no_fault split: option.splits)

lemma UpdateLink_no_fault: "faults w = [] \<Longrightarrow> fst (UpdateLink w arg) = None"
  by (simp add: UpdateLink_def Let_def store_call_no_fault)

lemma respond_OneLink_status: "StatusCode (fst (respond E req (OneLink l))) \<noteq> 400"
  using respond_status [of E req "OneLink l"] by auto

lemma respond_Links_status: "StatusCode (fst (respond E req (Links v))) \<noteq> 400"
  using respond_status [of E req "Links v"] by auto

section \<open>Facts about the resolver\<close>

lemma TrimSpace_Nil: "TrimSpace [] = []"
  by (simp add: TrimSpace_def TrimLeft.simps TrimRight.simps leadingSpace_def trailingSpace_def
      spaceRunes_def HasPrefix_def)

lemma img_callback_keep: "acc \<noteq> [] \<Longrightarrow> img_callback E urlStr s acc = acc"
  by (simp add: img_callback_def)

lemma fold_img_callback_keep: "acc \<noteq> [] \<Longrightarrow> fold (img_callback E urlStr) imgs acc = acc"
  by (induction imgs) (simp_all add: img_callback_keep)

lemma HasPrefix_simps:
  "HasPrefix s [] = True"
  "HasPrefix [] (p # ps) = False"
  "HasPrefix (c # cs) (p # ps) = (c = p \<and> HasPrefix cs ps)"
  by (auto simp: HasPrefix_def)

lemma HasPrefix_slashes: "HasPrefix src ''//'' \<Longrightarrow> HasPrefix src ''/''"
  by (cases src) (simp_all add: HasPrefix_simps)

lemma HasPrefix_http: "HasPrefix src ''http'' \<Longrightarrow> \<not> HasPrefix src ''/''"
  by (cases src) (simp_all add: HasPrefix_simps)

lemma usable_src_nonempty: "usable_src E urlStr src = Some u \<Longrightarrow> u \<noteq> []"
  by (cases src) (auto simp: usable_src_def HasPrefix_simps split: if_splits sum.splits)

lemma img_callback_usable:
  "img_callback E urlStr s [] = (case usable_img E urlStr s of None \<Rightarrow> [] | Some u \<Rightarrow> u)"
  by (simp add: img_callback_def usable_img_def usable_src_def split: option.splits sum.splits)

lemma fold_img_callback_first:
  "fold (img_callback E urlStr) imgs [] =
     (case List.map_filter (usable_img E urlStr) imgs of [] \<Rightarrow> [] | u # _ \<Rightarrow> u)"
proof (induction imgs)
  case Nil
  show ?case by (simp add: map_filter_simps)
next
  case (Cons s imgs)
  show ?case
  proof (cases "usable_img E urlStr s")
    case None
    with Cons show ?thesis
      by (simp add: img_callback_usable map_filter_simps)
  next
    case (Some u)
    then have "u \<noteq> []"
      by (auto simp: usable_img_def dest: usable_src_nonempty split: option.splits)
    with Some show ?thesis
      by (simp add: img_callback_usable map_filter_simps fold_img_callback_keep)
  qed
qed






section \<open>Facts about the dispatcher\<close>

lemma dispatch_PUT: "HTTPMethod req = ''PUT'' \<Longrightarrow> dispatch E req w = handle_put E req w"
  by (simp add: dispatch_def)


lemma handle_put_full:
  assumes "snd (ParseQuery (APIGatewayProxyRequest.Body req)) = None"
    and "\<not> (fst (ParseQuery (APIGatewayProxyRequest.Body req)) = [] \<and> index (QueryStringParameters req) ''id'' \<noteq> [])"
  shows "handle_put E req w =
           put_update E req (index (QueryStringParameters req) ''id'')
             (fst (ParseQuery (APIGatewayProxyRequest.Body req))) w"
  using assms by (auto simp add: handle_put_def Let_def split_def)

lemma handle_put_parse_error:
  assumes "snd (ParseQuery (APIGatewayProxyRequest.Body req)) \<noteq> None"
  shows "handle_put E req w = ((plain 400 ''Invalid request body'', None), w)"
  using assms by (auto simp add: handle_put_def Let_def split_def)

lemma handle_put_edit:
  assumes "snd (ParseQuery (APIGatewayProxyRequest.Body req)) = None"
    and "fst (ParseQuery (APIGatewayProxyRequest.Body req)) = []" "index (QueryStringParameters req) ''id'' \<noteq> []"
  shows "handle_put E req w = put_edit_form E (index (QueryStringParameters req) ''id'') w"
  using assms by (auto simp add: handle_put_def Let_def split_def)

lemma map_update_frame:
  "map ID (map (\<lambda>r. if ID r = i then r\<lparr>Url := u, Commentary := c\<rparr> else r) rs) = map ID rs"
  "map Title (map (\<lambda>r. if ID r = i then r\<lparr>Url := u, Commentary := c\<rparr> else r) rs) = map Title rs"
  "map ImageUrl (map (\<lambda>r. if ID r = i then r\<lparr>Url := u, Commentary := c\<rparr> else r) rs) = map ImageUrl rs"
  by (induction rs) simp_all

lemma ParseUint_loop_syntax:
  "snd (ParseUint_loop cs n) = Some ErrSyntax \<Longrightarrow> fst (ParseUint_loop cs n) = 0"
  by (induction cs arbitrary: n) (auto simp: Let_def split: if_splits)

lemma ParseUint_loop_range:
  "snd (ParseUint_loop cs n) = Some ErrRange \<Longrightarrow> fst (ParseUint_loop cs n) = 2 ^ 64 - 1"
  by (induction cs arbitrary: n) (auto simp: Let_def split: if_splits)





lemma Atoi_Nil: "Atoi [] = (0, Some ErrSyntax)"
  by (simp add: Atoi_def ParseInt_def)





lemma put_update_same_url:
  assumes st: "find (\<lambda>r. ID r = fst (Atoi s)) (rows w) = Some stored"
    and same: "Values_Get formData ''url'' = Url stored"
    and d: "distinct (map ID (rows w))"
  shows "filter is_fetch (trace (snd (put_update E req s formData w))) = filter is_fetch (trace w)
       \<and> (rows (snd (put_update E req s formData w)) = rows w
          \<or> rows (snd (put_update E req s formData w)) =
              map (\<lambda>r. if ID r = ID stored
                        then r\<lparr>Url := Values_Get formData ''url'',
                               Commentary := Values_Get formData ''commentary''\<rparr>
                        else r) (rows w))"
proof -
  obtain linkObj err w1 where g: "GetLink w (fst (Atoi s)) = ((linkObj, err), w1)"
    by (metis prod.exhaust)
  from GetLink_frame [OF g] have f1: "rows w1 = rows w" "trace w1 = trace w @ [DbGetLink (fst (Atoi s))]"
    by simp_all
  show ?thesis
  proof (cases err)
    case (Some e)
    with g f1 show ?thesis
      by (simp add: put_update_def Let_def split_def)
  next
    case None
    with g st have l: "linkObj = stored"
      by (auto dest: GetLink_ok)
    let ?url = "Values_Get formData ''url''" and ?content = "Values_Get formData ''commentary''"
    show ?thesis
    proof (cases "?content = [] \<or> ?url = []")
      case True
      with g None f1 show ?thesis
        by (auto simp add: put_update_def Let_def split_def)
    next
      case False
      let ?link = "zeroLink\<lparr>ID := ID stored, Url := ?url, Commentary := ?content,
                      Title := Title stored, ImageUrl := ImageUrl stored\<rparr>"
      obtain uerr w3 where u: "UpdateLink w1 ?link = (uerr, w3)"
        by (metis prod.exhaust)
      obtain l2 err2 w4 where g2: "GetLink w3 (fst (Atoi s)) = ((l2, err2), w4)"
        by (metis prod.exhaust)
      from UpdateLink_frame [OF u] GetLink_frame [OF g2] f1
      have tr: "filter is_fetch (trace w3) = filter is_fetch (trace w)"
               "filter is_fetch (trace w4) = filter is_fetch (trace w)"
               "rows w4 = rows w3"
        by simp_all
      have lf: "ID ?link = ID stored" "Url ?link = ?url" "Commentary ?link = ?content"
               "Title ?link = Title stored" "ImageUrl ?link = ImageUrl stored"
        by (simp_all add: zeroLink_def)
      have rw: "rows w3 = rows w \<or> rows w3 =
              map (\<lambda>r. if ID r = ID stored then r\<lparr>Url := ?url, Commentary := ?content\<rparr> else r) (rows w)"
      proof (cases uerr)
        case (Some e)
        with UpdateLink_frame [OF u] f1 show ?thesis by simp
      next
        case None
        with UpdateLink_frame [OF u]
        have "rows w3 = map (\<lambda>r. if ID r = ID ?link
                   then r\<lparr>Url := Url ?link, Commentary := Commentary ?link,
                          Title := Title ?link, ImageUrl := ImageUrl ?link\<rparr>
                   else r) (rows w1)"
          by simp
        also have "\<dots> = map (\<lambda>r. if ID r = ID stored
                   then r\<lparr>Url := ?url, Commentary := ?content,
                          Title := Title stored, ImageUrl := ImageUrl stored\<rparr>
                   else r) (rows w)"
          by (simp only: lf f1)
        also have "\<dots> = map (\<lambda>r. if ID r = ID stored then r\<lparr>Url := ?url, Commentary := ?content\<rparr> else r) (rows w)"
          by (rule update_same_metadata [OF d st])
        finally show ?thesis by simp
      qed
      have res: "snd (put_update E req s formData w) = (case uerr of Some e \<Rightarrow> w3 | None \<Rightarrow> w4)"
        using g None l False same u g2
        by (simp add: put_update_def Let_def split_def zeroLink_def split: option.splits)
      show ?thesis
        using res tr rw by (cases uerr) auto
    qed
  qed
qed

lemma put_update_invalid_id:
  assumes "GetLink w (fst (Atoi s)) = ((linkObj, Some e), w1)"
  shows "put_update E req s formData w = ((plain 400 ''Invalid link ID'', None), w1)"
  using assms by (simp add: put_update_def Let_def split_def)

lemma put_update_invalid_body:
  assumes "GetLink w (fst (Atoi s)) = ((linkObj, None), w1)"
    and "Values_Get formData ''commentary'' = [] \<or> Values_Get formData ''url'' = []"
  shows "put_update E req s formData w = ((plain 400 ''Invalid request body'', None), w1)"
  using assms by (auto simp add: put_update_def Let_def split_def)

lemma put_update_valid:
  assumes g: "GetLink w (fst (Atoi s)) = ((linkObj, None), w1)"
    and v: "Values_Get formData ''url'' \<noteq> []" "Values_Get formData ''commentary'' \<noteq> []"
  shows "\<exists>evs. trace (snd (put_update E req s formData w)) =
            trace w @ [DbGetLink (fst (Atoi s))]
              @ (if Values_Get formData ''url'' \<noteq> Url linkObj then [Fetch (Values_Get formData ''url'')] else [])
              @ [DbUpdateLink (update_params E linkObj (Values_Get formData ''url'') (Values_Get formData ''commentary''))]
              @ evs
            \<and> (\<forall>ev \<in> set evs. \<not> is_write ev \<and> \<not> is_fetch ev)"
    and "rows (snd (put_update E req s formData w)) = rows w
         \<or> rows (snd (put_update E req s formData w)) =
              apply_update (update_params E linkObj (Values_Get formData ''url'') (Values_Get formData ''commentary'')) (rows w)"
    and "faults w = [] \<Longrightarrow> rows (snd (put_update E req s formData w)) =
              apply_update (update_params E linkObj (Values_Get formData ''url'') (Values_Get formData ''commentary'')) (rows w)"
    and "StatusCode (fst (fst (put_update E req s formData w))) \<noteq> 400"
proof -
  let ?url = "Values_Get formData ''url''" and ?content = "Values_Get formData ''commentary''"
  let ?link = "update_params E linkObj ?url ?content"
  let ?w2 = "if ?url \<noteq> Url linkObj then w1\<lparr>trace := trace w1 @ [Fetch ?url]\<rparr> else w1"
  from GetLink_frame [OF g] have f1: "rows w1 = rows w" "trace w1 = trace w @ [DbGetLink (fst (Atoi s))]"
    by simp_all
  obtain uerr w3 where u: "UpdateLink ?w2 ?link = (uerr, w3)"
    by (metis prod.exhaust)
  obtain l2 err2 w4 where g2: "GetLink w3 (fst (Atoi s)) = ((l2, err2), w4)"
    by (metis prod.exhaust)
  have res: "put_update E req s formData w =
      (case uerr of
         Some e \<Rightarrow> ((plain 500 (Error e), None), w3)
       | None \<Rightarrow> (case err2 of
                    Some e \<Rightarrow> ((plain 500 (Error e), None), w4)
                  | None \<Rightarrow> (respond E req (OneLink l2), w4)))"
    using g v u g2
    by (simp add: put_update_def Let_def split_def update_params_def call_fetchMetadata_def
        split: option.splits if_splits)
  have t3: "trace w3 = trace w @ [DbGetLink (fst (Atoi s))]
              @ (if ?url \<noteq> Url linkObj then [Fetch ?url] else []) @ [DbUpdateLink ?link]"
    using UpdateLink_frame [OF u] f1 by simp
  have t4: "trace w4 = trace w3 @ [DbGetLink (fst (Atoi s))]" "rows w4 = rows w3"
    using GetLink_frame [OF g2] by simp_all
  have r3: "(case uerr of Some e \<Rightarrow> rows w3 = rows w | None \<Rightarrow> rows w3 = apply_update ?link (rows w))"
    using UpdateLink_frame [OF u] f1 by (simp add: apply_update_def split: option.splits)
  show "\<exists>evs. trace (snd (put_update E req s formData w)) =
            trace w @ [DbGetLink (fst (Atoi s))]
              @ (if ?url \<noteq> Url linkObj then [Fetch ?url] else [])
              @ [DbUpdateLink ?link] @ evs
            \<and> (\<forall>ev \<in> set evs. \<not> is_write ev \<and> \<not> is_fetch ev)"
  proof (cases uerr)
    case (Some e)
    with res t3 show ?thesis by simp
  next
    case None
    with res t3 t4 have "trace (snd (put_update E req s formData w)) =
            trace w @ [DbGetLink (fst (Atoi s))]
              @ (if ?url \<noteq> Url linkObj then [Fetch ?url] else [])
              @ [DbUpdateLink ?link] @ [DbGetLink (fst (Atoi s))]"
      by (simp split: option.splits)
    then show ?thesis by (intro exI [of _ "[DbGetLink (fst (Atoi s))]"]) simp
  qed
  show "rows (snd (put_update E req s formData w)) = rows w
         \<or> rows (snd (put_update E req s formData w)) = apply_update ?link (rows w)"
    using res r3 t4 by (auto split: option.splits)
  show "StatusCode (fst (fst (put_update E req s formData w))) \<noteq> 400"
    using res respond_OneLink_status [of E req l2]
    by (auto simp: plain_def split: option.splits)
  show "rows (snd (put_update E req s formData w)) = apply_update ?link (rows w)" if nf: "faults w = []"
  proof -
    from GetLink_no_fault [OF g nf] have "faults ?w2 = []" by simp
    then have "fst (UpdateLink ?w2 ?link) = None" by (rule UpdateLink_no_fault)
    with u have "uerr = None" by simp
    with res r3 t4 show ?thesis by (auto split: option.splits)
  qed
qed

lemma handle_post_invalid:
  assumes "snd (ParseQuery (APIGatewayProxyRequest.Body req)) \<noteq> None
           \<or> Values_Get (fst (ParseQuery (APIGatewayProxyRequest.Body req))) ''commentary'' = []
           \<or> Values_Get (fst (ParseQuery (APIGatewayProxyRequest.Body req))) ''url'' = []"
  shows "handle_post E req w = ((plain 400 ''Invalid request body'', None), w)"
  using assms by (auto simp add: handle_post_def Let_def split_def)

lemma handle_post_valid:
  assumes p: "snd (ParseQuery (APIGatewayProxyRequest.Body req)) = None"
    and v: "Values_Get (fst (ParseQuery (APIGatewayProxyRequest.Body req))) ''url'' = url" "url \<noteq> []"
           "Values_Get (fst (ParseQuery (APIGatewayProxyRequest.Body req))) ''commentary'' = content" "content \<noteq> []"
  shows "\<exists>evs. trace (snd (handle_post E req w)) =
            trace w @ [Fetch url, DbCreateLink (create_params E url content)] @ evs
            \<and> (\<forall>ev \<in> set evs. \<not> is_write ev \<and> \<not> is_fetch ev)"
    and "rows (snd (handle_post E req w)) = rows w
         \<or> rows (snd (handle_post E req w)) =
              rows w @ [created_row (create_params E url content) (fresh_id (rows w))]"
    and "faults w = [] \<Longrightarrow> rows (snd (handle_post E req w)) =
              rows w @ [created_row (create_params E url content) (fresh_id (rows w))]"
    and "StatusCode (fst (fst (handle_post E req w))) \<noteq> 400"
proof -
  let ?link = "create_params E url content"
  let ?w1 = "w\<lparr>trace := trace w @ [Fetch url]\<rparr>"
  obtain i cerr w2 where c: "CreateLink ?w1 ?link = ((i, cerr), w2)"
    by (metis prod.exhaust)
  obtain l2 err2 w3 where g2: "GetLink w2 i = ((l2, err2), w3)"
    by (metis prod.exhaust)
  have res: "handle_post E req w =
      (case cerr of
         Some e \<Rightarrow> ((plain 500 (Error e), None), w2)
       | None \<Rightarrow> (respond E req (OneLink l2), w3))"
    using p v c g2
    by (simp add: handle_post_def Let_def split_def create_params_def call_fetchMetadata_def
        split: option.splits)
  have t2: "trace w2 = trace w @ [Fetch url, DbCreateLink ?link]"
    using CreateLink_frame [OF c] by simp
  have t3: "trace w3 = trace w2 @ [DbGetLink i]" "rows w3 = rows w2"
    using GetLink_frame [OF g2] by simp_all
  have r2: "(case cerr of Some e \<Rightarrow> rows w2 = rows w
            | None \<Rightarrow> rows w2 = rows w @ [created_row ?link (fresh_id (rows w))])"
    using CreateLink_frame [OF c] by (simp add: created_row_def split: option.splits)
  show "\<exists>evs. trace (snd (handle_post E req w)) =
            trace w @ [Fetch url, DbCreateLink ?link] @ evs
            \<and> (\<forall>ev \<in> set evs. \<not> is_write ev \<and> \<not> is_fetch ev)"
  proof (cases cerr)
    case (Some e)
    with res t2 show ?thesis by simp
  next
    case None
    with res t2 t3 have "trace (snd (handle_post E req w)) =
            trace w @ [Fetch url, DbCreateLink ?link] @ [DbGetLink i]"
      by simp
    then show ?thesis by (intro exI [of _ "[DbGetLink i]"]) simp
  qed
  show "rows (snd (handle_post E req w)) = rows w
         \<or> rows (snd (handle_post E req w)) = rows w @ [created_row ?link (fresh_id (rows w))]"
    using res r2 t3 by (auto split: option.splits)
  show "StatusCode (fst (fst (handle_post E req w))) \<noteq> 400"
    using res respond_OneLink_status [of E req l2]
    by (auto simp: plain_def split: option.splits)
  show "rows (snd (handle_post E req w)) = rows w @ [created_row ?link (fresh_id (rows w))]"
    if nf: "faults w = []"
  proof -
    from nf have "faults ?w1 = []" by simp
    then have "snd (fst (CreateLink ?w1 ?link)) = None"
      by (simp add: CreateLink_def Let_def store_call_no_fault)
    with c have "cerr = None" by simp
    with res r2 t3 show ?thesis by (auto split: option.splits)
  qed
qed

lemma handle_get_frame:
  "rows (snd (handle_get E req w)) = rows w
   \<and> filter is_write (trace (snd (handle_get E req w))) = filter is_write (trace w)"
proof -
  obtain l e w1 where g: "GetLink w (fst (Atoi (index (QueryStringParameters req) ''id''))) = ((l, e), w1)"
    by (metis prod.exhaust)
  obtain ls e' w2 where ll: "ListLinks w = ((ls, e'), w2)"
    by (metis prod.exhaust)
  from GetLink_frame [OF g] ListLinks_frame [OF ll] g ll show ?thesis
    by (auto simp add: handle_get_def Let_def split_def split: option.splits)
qed

lemma put_edit_form_frame:
  "rows (snd (put_edit_form E s w)) = rows w
   \<and> filter is_write (trace (snd (put_edit_form E s w))) = filter is_write (trace w)
   \<and> filter is_fetch (trace (snd (put_edit_form E s w))) = filter is_fetch (trace w)
   \<and> StatusCode (fst (fst (put_edit_form E s w))) \<noteq> 400"
proof -
  obtain l e w1 where g: "GetLink w (fst (Atoi s)) = ((l, e), w1)"
    by (metis prod.exhaust)
  from GetLink_frame [OF g] g show ?thesis
    by (auto simp add: put_edit_form_def Let_def split_def plain_def typed_def split: sum.splits)
qed











text \<open>
  The identifiers of the rows stay distinct: \<open>id\<close> is the key of the table, as the
  frame of an update with an unchanged \<open>url\<close> assumes.
\<close>

lemma fold_max_ge: "(a::int) \<le> fold max xs a \<and> (\<forall>x\<in>set xs. x \<le> fold max xs a)"
proof (induction xs arbitrary: a)
  case Nil
  show ?case by simp
next
  case (Cons y ys)
  from Cons [of "max y a"] show ?case
    by auto
qed

lemma fresh_id_fresh: "r \<in> set rs \<Longrightarrow> ID r < fresh_id rs"
  using fold_max_ge [of 0 "map ID rs"] by (auto simp: fresh_id_def)

lemma apply_update_ids: "map ID (apply_update arg rs) = map ID rs"
  by (induction rs) (simp_all add: apply_update_def)

lemma handle_delete_filter:
  "rows (snd (handle_delete E req w)) = rows w
   \<or> rows (snd (handle_delete E req w)) =
        filter (\<lambda>r. ID r \<noteq> fst (Atoi (index (QueryStringParameters req) ''id''))) (rows w)"
proof -
  obtain e w1 where d: "DeleteLink w (fst (Atoi (index (QueryStringParameters req) ''id''))) = (e, w1)"
    by (metis prod.exhaust)
  from DeleteLink_frame [OF d] d show ?thesis
    by (auto simp add: handle_delete_def Let_def split_def split: option.splits)
qed

lemma handle_post_rows:
  "rows (snd (handle_post E req w)) = rows w
   \<or> (\<exists>arg. rows (snd (handle_post E req w)) = rows w @ [created_row arg (fresh_id (rows w))])"
proof (cases "snd (ParseQuery (APIGatewayProxyRequest.Body req)) \<noteq> None
           \<or> Values_Get (fst (ParseQuery (APIGatewayProxyRequest.Body req))) ''commentary'' = []
           \<or> Values_Get (fst (ParseQuery (APIGatewayProxyRequest.Body req))) ''url'' = []")
  case True
  then show ?thesis by (simp add: handle_post_invalid)
next
  case False
  then have p: "snd (ParseQuery (APIGatewayProxyRequest.Body req)) = None"
    and v: "Values_Get (fst (ParseQuery (APIGatewayProxyRequest.Body req))) ''url'' \<noteq> []"
           "Values_Get (fst (ParseQuery (APIGatewayProxyRequest.Body req))) ''commentary'' \<noteq> []"
    by simp_all
  from handle_post_valid(2) [OF p refl v(1) refl v(2), of E w] show ?thesis
    by blast
qed

lemma put_update_rows:
  "rows (snd (put_update E req s formData w)) = rows w
   \<or> (\<exists>arg. rows (snd (put_update E req s formData w)) = apply_update arg (rows w))"
proof -
  obtain linkObj err w1 where g: "GetLink w (fst (Atoi s)) = ((linkObj, err), w1)"
    by (metis prod.exhaust)
  show ?thesis
  proof (cases err)
    case (Some e)
    with g GetLink_frame [OF g] show ?thesis
      by (simp add: put_update_invalid_id)
  next
    case None
    show ?thesis
    proof (cases "Values_Get formData ''commentary'' = [] \<or> Values_Get formData ''url'' = []")
      case True
      with g None GetLink_frame [OF g] show ?thesis
        by (simp add: put_update_invalid_body)
    next
      case False
      then have v: "Values_Get formData ''url'' \<noteq> []" "Values_Get formData ''commentary'' \<noteq> []"
        by simp_all
      from g None have g': "GetLink w (fst (Atoi s)) = ((linkObj, None), w1)" by simp
      from put_update_valid(2) [OF g' v, of E req] show ?thesis
        by blast
    qed
  qed
qed

lemma handle_put_rows:
  "rows (snd (handle_put E req w)) = rows w
   \<or> (\<exists>arg. rows (snd (handle_put E req w)) = apply_update arg (rows w))"
proof (cases "snd (ParseQuery (APIGatewayProxyRequest.Body req))")
  case (Some e)
  then show ?thesis by (simp add: handle_put_parse_error)
next
  case None
  show ?thesis
  proof (cases "fst (ParseQuery (APIGatewayProxyRequest.Body req)) = [] \<and> index (QueryStringParameters req) ''id'' \<noteq> []")
    case True
    with None put_edit_form_frame [of E "index (QueryStringParameters req) ''id''" w] show ?thesis
      by (simp add: handle_put_edit)
  next
    case False
    with None put_update_rows [of E req "index (QueryStringParameters req) ''id''" "fst (ParseQuery (APIGatewayProxyRequest.Body req))" w]
    show ?thesis
      by (simp add: handle_put_full)
  qed
qed

lemma dispatch_distinct_ids:
  assumes d: "distinct (map ID (rows w))"
  shows "distinct (map ID (rows (snd (dispatch E req w))))"
proof -
  have fresh: "fresh_id (rows w) \<notin> ID ` set (rows w)"
  proof
    assume "fresh_id (rows w) \<in> ID ` set (rows w)"
    then obtain r where "r \<in> set (rows w)" "ID r = fresh_id (rows w)"
      by auto
    with fresh_id_fresh [of r "rows w"] show False
      by simp
  qed
  have post: "distinct (map ID (rows w @ [created_row arg (fresh_id (rows w))]))" for arg
    using d fresh by (simp add: created_row_def)
  have del: "distinct (map ID (filter P (rows w)))" for P
    using d by (rule distinct_map_filter)
  from handle_get_frame [of E req w] handle_post_rows [of E req w] handle_put_rows [of E req w]
    handle_delete_filter [of E req w] d post del
  show ?thesis
    by (auto simp: dispatch_def apply_update_ids split: if_splits)
qed

lemma handler_dispatch:
  assumes "sql_Open E = None" "ExecContext_DDL w = (None, w1)"
    and "Parse E ''link''" "Parse E ''list''" "Parse E ''edit''" "Parse E ''detail''"
  shows "handler E req w =
           (Returned (fst (fst (dispatch E req w1))) (snd (fst (dispatch E req w1))),
            snd (dispatch E req w1))"
  using assms by (simp add: handler_def split_def Let_def)

section \<open>Evaluation of the examples\<close>

lemma Atoi_examples:
  "Atoi ''5'' = (5, None)"
  "Atoi ''50'' = (50, None)"
  "Atoi ''abc'' = (0, Some ErrSyntax)"
  "Atoi ''five'' = (0, Some ErrSyntax)"
  "Atoi ''99999999999999999999'' = (9223372036854775807, Some ErrRange)"
  "Atoi ''99999999999999999999x'' = (9223372036854775807, Some ErrRange)"
  by (simp_all add: Atoi_def ParseInt_def ParseUint_def)

lemma TrimSpace_examples:
  "TrimSpace [] = []"
  "TrimSpace '' Ex '' = ''Ex''"
  "TrimSpace ''Og'' = ''Og''"
  "TrimSpace ''Hello'' = ''Hello''"
  "TrimSpace [CHR 0xC2, CHR 0xA0] = []"
  by (simp_all add: TrimSpace_def TrimLeft.simps TrimRight.simps leadingSpace_def trailingSpace_def
      spaceRunes_def HasPrefix_def)

lemmas dispatch_defs =
  handler_def dispatch_def handle_get_def handle_post_def handle_put_def handle_delete_def
  put_edit_form_def put_update_def ExecContext_DDL_def store_call_def
  GetLink_def CreateLink_def UpdateLink_def DeleteLink_def ListLinks_def fresh_id_def
  call_fetchMetadata_def set_metadata_def respond_def index_def plain_def typed_def
  parseQuery.simps ParseQuery_def Cut_def Values_add_def Values_Get_def Atoi_examples
  zeroLink_def zeroCreateLinkParams_def zeroNullString_def Let_def
  request_def w_ex_def w_down_def link0_def link5_def show_link_def


lemmas eval_defs = dispatch_defs E_ex_def

lemmas page_simps = Find_def Text_def Attr_def TrimSpace_examples

lemmas page_defs =
  fetchMetadata_def extract_title_def extract_image_def img_fallback_def img_callback_def
  Find_def Text_def Attr_def TrimSpace_examples HasPrefix_def
  page_logo_def page_titled_def page_empty_og_def

lemma parse_examples:
  "ParseQuery ''url=https://ex.com&commentary=changed''
     = ([(''url'', [''https://ex.com'']), (''commentary'', [''changed''])], None)"
  "ParseQuery ''url=https://ex.com&commentary=hi''
     = ([(''url'', [''https://ex.com'']), (''commentary'', [''hi''])], None)"
  "ParseQuery ''commentary=hi'' = ([(''commentary'', [''hi''])], None)"
  "ParseQuery ''url=https://ex.com'' = ([(''url'', [''https://ex.com''])], None)"
  "ParseQuery ''url=https://zero.org&commentary=edited''
     = ([(''url'', [''https://zero.org'']), (''commentary'', [''edited''])], None)"
  "ParseQuery ''url=https://zero.org'' = ([(''url'', [''https://zero.org''])], None)"
  "ParseQuery ''url=https://site.com/post&commentary=moved''
     = ([(''url'', [''https://site.com/post'']), (''commentary'', [''moved''])], None)"
  by (simp_all add: ParseQuery_def parseQuery.simps Cut_def Values_add_def)


section \<open>The claims\<close>

text \<open>
  C1, as the specification states it: the title is the first NON-EMPTY trimmed value among
  the \<open>title\<close> text, the \<open>og:title\<close> property and the \<open>title\<close> meta name, so that an
  \<open>og:title\<close> tag with empty content falls through to the \<open>title\<close> meta name. The
  resolver does not do that: on a page whose \<open>og:title\<close> has empty content and whose
  \<open>title\<close> meta name is "Hello", it returns the empty title.
\<close>

theorem title_first_nonempty_counterexample:
  "extract_title page_empty_og = [] \<and> title_first_nonempty page_empty_og = ''Hello''"
  by (simp add: extract_title_def title_first_nonempty_def first_nonempty_def the_default_def
      rule_og_title_def rule_meta_title_def page_empty_og_def page_simps)

text \<open>
  C1, amended: the title is the trimmed value of the first rule that MATCHES, in the order
  \<open>title\<close> element, \<open>og:title\<close> property, \<open>title\<close> meta name, and empty when none
  matches; the \<open>title\<close> element matches when its untrimmed text is not empty, a meta tag
  matches when it carries a \<open>content\<close> attribute, empty or not. The result is the first
  non-empty trimmed value of the specification whenever the \<open>title\<close> text, if not empty,
  is not blank, and the \<open>og:title\<close> content, if present, is not blank. Trimmed and blank
  are those of \<open>strings.TrimSpace\<close>: a \<open>title\<close> element that holds only U+00A0 matches
  and gives the empty title.
\<close>

theorem extract_title_first_match:
  "extract_title doc =
     (case first_match [rule_title_element, rule_og_title, rule_meta_title] doc of
        Some title \<Rightarrow> TrimSpace title
      | None \<Rightarrow> [])
   \<and> ((Text (Find doc (Sel ''title'' None)) = [] \<or> TrimSpace (Text (Find doc (Sel ''title'' None))) \<noteq> []) \<and>
       (rule_og_title doc = None \<or> TrimSpace (the_default (rule_og_title doc)) \<noteq> [])
       \<longrightarrow> extract_title doc = title_first_nonempty doc)"
  by (auto simp: extract_title_def title_first_nonempty_def first_nonempty_def the_default_def
      rule_title_element_def rule_og_title_def rule_meta_title_def Let_def TrimSpace_Nil
      split: option.splits)

theorem extract_title_first_match_witness:
  "extract_title page_titled = ''Ex'' \<and> title_first_nonempty page_titled = ''Ex''
   \<and> first_match [rule_title_element, rule_og_title, rule_meta_title] page_empty_og = Some []
   \<and> first_match [rule_title_element, rule_og_title, rule_meta_title] page_nbsp_title
       = Some [CHR 0xC2, CHR 0xA0]
   \<and> extract_title page_nbsp_title = []"
proof -
  have n: "first_match [rule_title_element, rule_og_title, rule_meta_title] page_nbsp_title
       = Some [CHR 0xC2, CHR 0xA0]"
    by (simp add: rule_title_element_def page_nbsp_title_def page_simps)
  from extract_title_first_match [of page_nbsp_title, THEN conjunct1] n
  have x: "extract_title page_nbsp_title = []"
    by (simp add: TrimSpace_examples)
  have t: "Text (Find page_titled (Sel ''title'' None)) = '' Ex ''"
    by (simp add: page_titled_def page_simps)
  have h: "(Text (Find page_titled (Sel ''title'' None)) = [] \<or> TrimSpace (Text (Find page_titled (Sel ''title'' None))) \<noteq> []) \<and>
       (rule_og_title page_titled = None \<or> TrimSpace (the_default (rule_og_title page_titled)) \<noteq> [])"
    by (simp add: t rule_og_title_def the_default_def page_titled_def page_simps)
  have e: "title_first_nonempty page_titled = ''Ex''"
    by (simp add: title_first_nonempty_def first_nonempty_def t TrimSpace_examples)
  have m: "first_match [rule_title_element, rule_og_title, rule_meta_title] page_empty_og = Some []"
    by (simp add: rule_title_element_def rule_og_title_def page_empty_og_def page_simps)
  have "extract_title page_titled = title_first_nonempty page_titled"
    using extract_title_first_match [of page_titled] h by blast
  with e m n x show ?thesis
    by simp
qed

text \<open>
  C2: on create, a store failure on the write or on the re-read surfaces as a 500
  response. The write does (line 173); the error of the re-read of line 176 is never
  tested, as it is after the re-read of an update (line 236). With a store that accepts
  the insert and fails the following select, the request is answered with 200 and the
  rendering of the zero Link, while the row is persisted.
\<close>

theorem create_reread_failure_is_200:
  "handler E_ex (request ''POST'' [] [] ''url=https://ex.com&commentary=hi'')
      \<lparr>rows = [], faults = [None, None, Some (StoreFault ''connection lost'')], trace = []\<rparr>
   = (Returned \<lparr>StatusCode = 200, Headers = [(''Content-Type'', ''application/json'')], Body = ''|||''\<rparr> None,
      \<lparr>rows = [\<lparr>Url = ''https://ex.com'', Commentary = ''hi'',
                 Title = \<lparr>String = ''Ex'', Valid = True\<rparr>,
                 ImageUrl = \<lparr>String = [], Valid = False\<rparr>, ID = 1\<rparr>],
        faults = [],
        trace = [ExecDDL, Fetch ''https://ex.com'',
                 DbCreateLink \<lparr>Url = ''https://ex.com'', Commentary = ''hi'',
                               Title = \<lparr>String = ''Ex'', Valid = True\<rparr>,
                               ImageUrl = \<lparr>String = [], Valid = False\<rparr>\<rparr>,
                 DbGetLink 1]\<rparr>)"
  by (simp add: eval_defs page_defs)

text \<open>
  C3: a full update (PUT with fields in the body) whose \<open>url\<close> equals the \<open>url\<close> stored
  under the requested identifier makes no metadata fetch, and leaves the identifier,
  the title and the image URL of every persisted link exactly as they were stored.
\<close>

theorem update_same_url_keeps_metadata:
  assumes m: "HTTPMethod req = ''PUT''"
    and b: "fst (ParseQuery (APIGatewayProxyRequest.Body req)) \<noteq> []"
    and st: "find (\<lambda>r. ID r = fst (Atoi (index (QueryStringParameters req) ''id''))) (rows w) = Some stored"
    and same: "Values_Get (fst (ParseQuery (APIGatewayProxyRequest.Body req))) ''url'' = Url stored"
    and d: "distinct (map ID (rows w))"
  shows "filter is_fetch (trace (snd (dispatch E req w))) = filter is_fetch (trace w)
       \<and> map ID (rows (snd (dispatch E req w))) = map ID (rows w)
       \<and> map Title (rows (snd (dispatch E req w))) = map Title (rows w)
       \<and> map ImageUrl (rows (snd (dispatch E req w))) = map ImageUrl (rows w)"
proof (cases "snd (ParseQuery (APIGatewayProxyRequest.Body req))")
  case (Some e)
  then show ?thesis
    by (simp add: dispatch_PUT [OF m] handle_put_parse_error)
next
  case None
  with b have "dispatch E req w =
      put_update E req (index (QueryStringParameters req) ''id'')
        (fst (ParseQuery (APIGatewayProxyRequest.Body req))) w"
    by (simp add: dispatch_PUT [OF m] handle_put_full)
  with put_update_same_url [OF st same d, of E req] show ?thesis
    by (auto simp: map_update_frame)
qed

theorem update_same_url_keeps_metadata_witness:
  "filter is_fetch (trace (snd (dispatch E_ex
       (request ''PUT'' [] [(''id'', ''5'')] ''url=https://ex.com&commentary=changed'') w_ex))) = []
   \<and> map Title (rows (snd (dispatch E_ex
       (request ''PUT'' [] [(''id'', ''5'')] ''url=https://ex.com&commentary=changed'') w_ex)))
      = [zeroNullString, \<lparr>String = ''Ex'', Valid = True\<rparr>]
   \<and> map Commentary (rows (snd (dispatch E_ex
       (request ''PUT'' [] [(''id'', ''5'')] ''url=https://ex.com&commentary=changed'') w_ex)))
      = [''first'', ''changed'']"
proof -
  let ?req = "request ''PUT'' [] [(''id'', ''5'')] ''url=https://ex.com&commentary=changed''"
  have m: "HTTPMethod ?req = ''PUT''"
    by (simp add: request_def)
  have b: "fst (ParseQuery (APIGatewayProxyRequest.Body ?req)) \<noteq> []"
    by (simp add: request_def parse_examples)
  have st: "find (\<lambda>r. ID r = fst (Atoi (index (QueryStringParameters ?req) ''id''))) (rows w_ex) = Some link5"
    by (simp add: request_def index_def Atoi_examples w_ex_def link0_def link5_def)
  have same: "Values_Get (fst (ParseQuery (APIGatewayProxyRequest.Body ?req))) ''url'' = Url link5"
    by (simp add: request_def parse_examples Values_Get_def link5_def)
  have d: "distinct (map ID (rows w_ex))"
    by (simp add: w_ex_def link0_def link5_def)
  have c: "map Commentary (rows (snd (dispatch E_ex ?req w_ex))) = [''first'', ''changed'']"
    by (simp add: eval_defs)
  from update_same_url_keeps_metadata [OF m b st same d, of E_ex] c show ?thesis
    by (simp add: w_ex_def link0_def link5_def)
qed

text \<open>
  C4: the edit-form request (PUT, empty body, \<open>id\<close> present) fails with 400 on an \<open>id\<close>
  that does not parse and with 500 when the store fails to fetch the link. Lines 185 and
  186 assign both errors and test neither, as the single read of a GET does (lines 135
  and 139): the template is executed on the zero Link and the answer is 200, for the
  \<open>id\<close> "abc" as for a store that fails the select.
\<close>

theorem edit_form_bad_id_is_200:
  "fst (handler E_ex (request ''PUT'' [] [(''id'', ''abc'')] [])
      \<lparr>rows = [link5], faults = [], trace = []\<rparr>)
   = Returned \<lparr>StatusCode = 200, Headers = [(''Content-Type'', ''text/html'')], Body = ''edit:|||''\<rparr> None
  \<and> fst (handler E_ex (request ''PUT'' [] [(''id'', ''5'')] [])
      \<lparr>rows = [link5], faults = [None, Some (StoreFault ''connection lost'')], trace = []\<rparr>)
   = Returned \<lparr>StatusCode = 200, Headers = [(''Content-Type'', ''text/html'')], Body = ''edit:|||''\<rparr> None"
  by (simp add: eval_defs)




text \<open>
  C6: in the \<open>img\<close> fallback, a \<open>src\<close> that begins with \<open>//\<close> gives \<open>https:\<close> followed by
  it; a \<open>src\<close> that begins with \<open>/\<close> but not \<open>//\<close> gives scheme, \<open>://\<close> and host of the
  page URL followed by it; a \<open>src\<close> that begins with \<open>http\<close> is used as it is; any other
  \<open>src\<close> is skipped and the scan goes on; an image URL once constructed is kept, so the
  result of the scan is the first URL that could be constructed, in document order, and
  empty when there is none.
\<close>

theorem img_fallback_first_usable:
  "img_fallback E urlStr doc =
     (case List.map_filter (usable_img E urlStr) (Find doc (Sel ''img'' None)) of
        [] \<Rightarrow> []
      | u # _ \<Rightarrow> u)
   \<and> (\<forall>name attrs cs src acc.
         map_of attrs ''src'' = Some src \<longrightarrow>
           (HasPrefix src ''//'' \<longrightarrow>
              img_callback E urlStr (ElementNode name attrs cs) [] = ''https:'' @ src) \<and>
           (HasPrefix src ''/'' \<and> \<not> HasPrefix src ''//'' \<longrightarrow>
              (\<forall>u. url_Parse E urlStr = Inr u \<longrightarrow>
                 img_callback E urlStr (ElementNode name attrs cs) [] = Scheme u @ ''://'' @ Host u @ src)) \<and>
           (HasPrefix src ''http'' \<longrightarrow>
              img_callback E urlStr (ElementNode name attrs cs) [] = src) \<and>
           (\<not> HasPrefix src ''/'' \<and> \<not> HasPrefix src ''http'' \<longrightarrow>
              img_callback E urlStr (ElementNode name attrs cs) [] = []) \<and>
           (acc \<noteq> [] \<longrightarrow> img_callback E urlStr (ElementNode name attrs cs) acc = acc))"
proof (intro conjI allI impI)
  show "img_fallback E urlStr doc =
     (case List.map_filter (usable_img E urlStr) (Find doc (Sel ''img'' None)) of
        [] \<Rightarrow> []
      | u # _ \<Rightarrow> u)"
    by (simp add: img_fallback_def fold_img_callback_first)
qed (auto simp: img_callback_def Attr_def dest: HasPrefix_slashes HasPrefix_http)

theorem img_fallback_first_usable_witness:
  "img_fallback E_ex ''https://site.com/post'' page_logo = ''https://site.com/logo.png''
   \<and> img_callback E_ex ''https://site.com/post'' (ElementNode ''img'' [(''src'', ''//cdn.site.com/a.png'')] []) []
       = ''https://cdn.site.com/a.png''
   \<and> img_callback E_ex ''https://site.com/post'' (ElementNode ''img'' [(''src'', ''/logo.png'')] []) []
       = ''https://site.com/logo.png''
   \<and> img_callback E_ex ''https://site.com/post'' (ElementNode ''img'' [(''src'', ''http://a.org/b.png'')] []) []
       = ''http://a.org/b.png''
   \<and> img_callback E_ex ''https://site.com/post'' (ElementNode ''img'' [(''src'', ''logo.png'')] []) [] = []
   \<and> img_callback E_ex ''https://site.com/post'' (ElementNode ''img'' [(''src'', ''/logo.png'')] [])
         ''https://cdn.site.com/a.png''
       = ''https://cdn.site.com/a.png''"
proof -
  let ?u = "''https://site.com/post''"
  have "List.map_filter (usable_img E_ex ?u) (Find page_logo (Sel ''img'' None))
        = [''https://site.com/logo.png'', ''https://cdn.site.com/a.png'']"
    by (simp add: page_logo_def Find_def map_filter_simps usable_img_def usable_src_def Attr_def
        HasPrefix_def E_ex_def)
  with img_fallback_first_usable [of E_ex ?u page_logo, THEN conjunct1]
  have c0: "img_fallback E_ex ?u page_logo = ''https://site.com/logo.png''"
    by simp
  note rules = img_fallback_first_usable [of E_ex ?u page_logo, THEN conjunct2, rule_format]
  have p: "url_Parse E_ex ?u = Inr \<lparr>Scheme = ''https'', Host = ''site.com''\<rparr>"
    by (simp add: E_ex_def)
  have c1: "img_callback E_ex ?u (ElementNode ''img'' [(''src'', ''//cdn.site.com/a.png'')] []) []
       = ''https://cdn.site.com/a.png''"
    using rules [of "[(''src'', ''//cdn.site.com/a.png'')]" "''//cdn.site.com/a.png''", THEN conjunct1, of "''img''" "[]"]
    by (simp add: HasPrefix_def)
  have c2: "img_callback E_ex ?u (ElementNode ''img'' [(''src'', ''/logo.png'')] []) []
       = ''https://site.com/logo.png''"
    using rules [of "[(''src'', ''/logo.png'')]" "''/logo.png''", THEN conjunct2, THEN conjunct1, of "''img''" "[]"] p
    by (simp add: HasPrefix_def)
  have c3: "img_callback E_ex ?u (ElementNode ''img'' [(''src'', ''http://a.org/b.png'')] []) []
       = ''http://a.org/b.png''"
    using rules [of "[(''src'', ''http://a.org/b.png'')]" "''http://a.org/b.png''", THEN conjunct2, THEN conjunct2, THEN conjunct1, of "''img''" "[]"]
    by (simp add: HasPrefix_def)
  have c4: "img_callback E_ex ?u (ElementNode ''img'' [(''src'', ''logo.png'')] []) [] = []"
    using rules [of "[(''src'', ''logo.png'')]" "''logo.png''", THEN conjunct2, THEN conjunct2, THEN conjunct2, THEN conjunct1, of "''img''" "[]"]
    by (simp add: HasPrefix_def)
  have c5: "img_callback E_ex ?u (ElementNode ''img'' [(''src'', ''/logo.png'')] []) ''https://cdn.site.com/a.png''
       = ''https://cdn.site.com/a.png''"
    using rules [of "[(''src'', ''/logo.png'')]" "''/logo.png''", THEN conjunct2, THEN conjunct2, THEN conjunct2, THEN conjunct2, of "''https://cdn.site.com/a.png''" "''img''" "[]"]
    by simp
  from c0 c1 c2 c3 c4 c5 show ?thesis
    by simp
qed

text \<open>
  C7: with the header \<open>hx-request\<close> present and \<open>true\<close>, a list renders the list template,
  a single link renders the detail template under \<open>view=detail\<close> and the link template
  otherwise, and a value of any other type is answered with 400; with the header absent
  the value is serialised to JSON; and every response with status 200 carries the content
  type of its body: \<open>text/html\<close> for the output of a template, \<open>application/json\<close> for the
  output of the encoder.
\<close>

theorem respond_negotiation:
  "(index (APIGatewayProxyRequest.Headers req) ''hx-request'' = ''true'' \<longrightarrow>
      respond E req (Links v) =
        (case Execute E ''list'' (Links v) of
           Inr body \<Rightarrow> (\<lparr>StatusCode = 200, Headers = [(''Content-Type'', ''text/html'')], Body = body\<rparr>, None)
         | Inl err \<Rightarrow> (plain 500 [], Some err)) \<and>
      respond E req (OneLink l) =
        (case Execute E (if index (QueryStringParameters req) ''view'' = ''detail'' then ''detail'' else ''link'')
                (OneLink l) of
           Inr body \<Rightarrow> (\<lparr>StatusCode = 200, Headers = [(''Content-Type'', ''text/html'')], Body = body\<rparr>, None)
         | Inl err \<Rightarrow> (plain 500 [], Some err)) \<and>
      respond E req (Other t) = (plain 400 [], Some (UnsupportedType t)))
   \<and> (APIGatewayProxyRequest.Headers req ''hx-request'' = None \<longrightarrow>
      respond E req d =
        (case Marshal E d of
           Inr body \<Rightarrow> (\<lparr>StatusCode = 200, Headers = [(''Content-Type'', ''application/json'')], Body = body\<rparr>, None)
         | Inl err \<Rightarrow> (plain 500 [], Some err)))
   \<and> (StatusCode (fst (respond E req d)) = 200 \<longrightarrow>
        snd (respond E req d) = None \<and>
        ((\<exists>name. Headers (fst (respond E req d)) = [(''Content-Type'', ''text/html'')] \<and>
                 Execute E name d = Inr (Body (fst (respond E req d)))) \<or>
         (Headers (fst (respond E req d)) = [(''Content-Type'', ''application/json'')] \<and>
          Marshal E d = Inr (Body (fst (respond E req d))))))"
proof (intro conjI impI)
  assume "StatusCode (fst (respond E req d)) = 200"
  then show "snd (respond E req d) = None"
    by (auto simp: respond_def plain_def typed_def split: if_splits data.splits sum.splits)
next
  assume "StatusCode (fst (respond E req d)) = 200"
  then show "(\<exists>name. Headers (fst (respond E req d)) = [(''Content-Type'', ''text/html'')] \<and>
                 Execute E name d = Inr (Body (fst (respond E req d)))) \<or>
         (Headers (fst (respond E req d)) = [(''Content-Type'', ''application/json'')] \<and>
          Marshal E d = Inr (Body (fst (respond E req d))))"
    by (auto simp: respond_def plain_def typed_def split: if_splits data.splits sum.splits)
qed (auto simp: respond_def plain_def typed_def index_def split: sum.splits)

theorem respond_negotiation_witness:
  "respond E_ex (request ''GET'' [(''hx-request'', ''true'')] [] []) (Links [link5])
     = (\<lparr>StatusCode = 200, Headers = [(''Content-Type'', ''text/html'')],
         Body = ''list:https://ex.com|hi|Ex|;''\<rparr>, None)
   \<and> respond E_ex (request ''GET'' [(''hx-request'', ''true'')] [(''view'', ''detail'')] []) (OneLink link5)
     = (\<lparr>StatusCode = 200, Headers = [(''Content-Type'', ''text/html'')],
         Body = ''detail:https://ex.com|hi|Ex|''\<rparr>, None)
   \<and> respond E_ex (request ''GET'' [(''hx-request'', ''true'')] [] []) (OneLink link5)
     = (\<lparr>StatusCode = 200, Headers = [(''Content-Type'', ''text/html'')],
         Body = ''link:https://ex.com|hi|Ex|''\<rparr>, None)
   \<and> respond E_ex (request ''GET'' [(''hx-request'', ''true'')] [] []) (Other ''int'')
     = (plain 400 [], Some (UnsupportedType ''int''))
   \<and> respond E_ex (request ''GET'' [] [] []) (OneLink link5)
     = (\<lparr>StatusCode = 200, Headers = [(''Content-Type'', ''application/json'')],
         Body = ''https://ex.com|hi|Ex|''\<rparr>, None)"
proof -
  let ?hx = "request ''GET'' [(''hx-request'', ''true'')] [] []"
  let ?hxd = "request ''GET'' [(''hx-request'', ''true'')] [(''view'', ''detail'')] []"
  let ?js = "request ''GET'' [] [] []"
  have h: "index (APIGatewayProxyRequest.Headers ?hx) ''hx-request'' = ''true''"
          "index (APIGatewayProxyRequest.Headers ?hxd) ''hx-request'' = ''true''"
          "APIGatewayProxyRequest.Headers ?js ''hx-request'' = None"
    by (simp_all add: request_def index_def)
  have v: "index (QueryStringParameters ?hx) ''view'' \<noteq> ''detail''"
          "index (QueryStringParameters ?hxd) ''view'' = ''detail''"
    by (simp_all add: request_def index_def)
  have e: "Execute E_ex ''list'' (Links [link5]) = Inr ''list:https://ex.com|hi|Ex|;''"
          "Execute E_ex ''detail'' (OneLink link5) = Inr ''detail:https://ex.com|hi|Ex|''"
          "Execute E_ex ''link'' (OneLink link5) = Inr ''link:https://ex.com|hi|Ex|''"
          "Marshal E_ex (OneLink link5) = Inr ''https://ex.com|hi|Ex|''"
    by (simp_all add: E_ex_def show_link_def link5_def zeroNullString_def)
  from respond_negotiation [of ?hx E_ex "[link5]" link5 "''int''" "OneLink link5"]
       respond_negotiation [of ?hxd E_ex "[link5]" link5 "''int''" "OneLink link5"]
       respond_negotiation [of ?js E_ex "[link5]" link5 "''int''" "OneLink link5"]
       h v e
  show ?thesis by simp
qed

text \<open>
  C8: a DELETE request without \<open>id\<close> is answered with 400 and the body "Missing link ID";
  with an \<open>id\<close> that does not parse as an integer, with 400; when the store fails to
  delete, with 500; and otherwise with 200 and an empty body, the row being deleted.
\<close>

theorem delete_responses:
  assumes "HTTPMethod req = ''DELETE''"
  shows "(QueryStringParameters req ''id'' = None \<longrightarrow>
            dispatch E req w = ((plain 400 ''Missing link ID'', None), w))
       \<and> (\<forall>s. QueryStringParameters req ''id'' = Some s \<and> snd (Atoi s) \<noteq> None \<longrightarrow>
            StatusCode (fst (fst (dispatch E req w))) = 400 \<and> snd (dispatch E req w) = w)
       \<and> (\<forall>s i e. QueryStringParameters req ''id'' = Some s \<and> Atoi s = (i, None) \<and>
              fst (DeleteLink w i) = Some e \<longrightarrow>
            fst (dispatch E req w) = (plain 500 (Error e), None))
       \<and> (\<forall>s i. QueryStringParameters req ''id'' = Some s \<and> Atoi s = (i, None) \<and>
              fst (DeleteLink w i) = None \<longrightarrow>
            fst (dispatch E req w) = (\<lparr>StatusCode = 200, Headers = [(''Content-Type'', ''text/html'')], Body = []\<rparr>, None) \<and>
            rows (snd (dispatch E req w)) = filter (\<lambda>r. ID r \<noteq> i) (rows w))"
  using assms
  apply (intro conjI allI impI)
  apply (auto simp: dispatch_def handle_delete_def index_def Let_def plain_def typed_def Atoi_Nil
        dest: DeleteLink_frame split: prod.splits option.splits)
  done

theorem delete_responses_witness:
  "dispatch E_ex (request ''DELETE'' [] [] []) w_ex = ((plain 400 ''Missing link ID'', None), w_ex)
   \<and> StatusCode (fst (fst (dispatch E_ex (request ''DELETE'' [] [(''id'', ''five'')] []) w_ex))) = 400
   \<and> fst (dispatch E_ex (request ''DELETE'' [] [(''id'', ''5'')] []) w_down)
       = (plain 500 ''connection lost'', None)
   \<and> fst (dispatch E_ex (request ''DELETE'' [] [(''id'', ''5'')] []) w_ex)
       = (\<lparr>StatusCode = 200, Headers = [(''Content-Type'', ''text/html'')], Body = []\<rparr>, None)
   \<and> rows (snd (dispatch E_ex (request ''DELETE'' [] [(''id'', ''5'')] []) w_ex)) = [link0]"
proof -
  have a: "Atoi ''five'' = (0, Some ErrSyntax)" "Atoi ''5'' = (5, None)"
    by (simp_all add: Atoi_examples)
  have d: "fst (DeleteLink w_down 5) = Some (StoreFault ''connection lost'')"
          "fst (DeleteLink w_ex 5) = None"
    by (simp_all add: DeleteLink_def store_call_def w_down_def w_ex_def)
  have f: "filter (\<lambda>r. ID r \<noteq> 5) (rows w_ex) = [link0]"
    by (simp add: w_ex_def link0_def link5_def)
  have c1: "dispatch E_ex (request ''DELETE'' [] [] []) w_ex = ((plain 400 ''Missing link ID'', None), w_ex)"
    using delete_responses [of "request ''DELETE'' [] [] []" E_ex w_ex]
    by (simp add: request_def)
  have c2: "StatusCode (fst (fst (dispatch E_ex (request ''DELETE'' [] [(''id'', ''five'')] []) w_ex))) = 400"
    using delete_responses [of "request ''DELETE'' [] [(''id'', ''five'')] []" E_ex w_ex] a
    by (simp add: request_def)
  have c3: "fst (dispatch E_ex (request ''DELETE'' [] [(''id'', ''5'')] []) w_down)
       = (plain 500 ''connection lost'', None)"
    using delete_responses [of "request ''DELETE'' [] [(''id'', ''5'')] []" E_ex w_down] a d
    by (simp add: request_def)
  have c4: "fst (dispatch E_ex (request ''DELETE'' [] [(''id'', ''5'')] []) w_ex)
       = (\<lparr>StatusCode = 200, Headers = [(''Content-Type'', ''text/html'')], Body = []\<rparr>, None)
     \<and> rows (snd (dispatch E_ex (request ''DELETE'' [] [(''id'', ''5'')] []) w_ex)) = [link0]"
    using delete_responses [of "request ''DELETE'' [] [(''id'', ''5'')] []" E_ex w_ex] a d f
    by (simp add: request_def)
  from c1 c2 c3 c4 show ?thesis by simp
qed






end
